theory Spec2Isabelle
  imports Main "HOL-Library.AList"
begin

section \<open>Router session of crossbar/router/session.py\<close>

text \<open>
  The class \<open>RouterSession\<close> is embedded as functions on a record of its attributes.
  Every method takes the session and returns the session it leaves behind, together
  with the exception it raised, if any: a Python exception keeps the assignments made
  before it. Calls into collaborators (transport, router, service session, cookie
  store, serializer) are appended to the field \<open>trace\<close>, each with the value that
  \<open>self._session_id\<close> has at the moment of the call. Collaborator calls are taken to
  return; message constructors of the WAMP library are taken not to raise.
\<close>

subsection \<open>Python values\<close>

datatype error =
    LogicError string
  | AssertionError
  | KeyError string
  | AttributeError string
  | TypeError string
  | SessionNotReady string
  | NoCurrentExceptionError

fun str_error :: "error \<Rightarrow> string" where
  "str_error (LogicError m) = m"
| "str_error AssertionError = []"
| "str_error (KeyError k) = k"
| "str_error (AttributeError m) = m"
| "str_error (TypeError m) = m"
| "str_error (SessionNotReady m) = m"
| "str_error NoCurrentExceptionError = []"

text \<open>Truthiness of an optional string, of an optional integer id, and of an attribute
  that may be missing (\<open>hasattr(o, a) and o.a\<close>).\<close>

definition truthy_str :: "string option \<Rightarrow> bool" where
  "truthy_str x = (case x of None \<Rightarrow> False | Some v \<Rightarrow> v \<noteq> [])"

definition truthy_id :: "nat option \<Rightarrow> bool" where
  "truthy_id x = (case x of None \<Rightarrow> False | Some n \<Rightarrow> n \<noteq> 0)"

definition hasattr_truthy :: "string option option \<Rightarrow> bool" where
  "hasattr_truthy x = (case x of None \<Rightarrow> False | Some v \<Rightarrow> truthy_str v)"

record transport_details =
  channel_serializer :: "string option"
  http_headers_received :: "(string \<times> string) list option"

datatype xvalue = XNone | XStr string | XInt int | XTransport transport_details

type_synonym authextra = "(string \<times> xvalue) list"

type_synonym roles = "string list"

subsection \<open>Messages\<close>

record hello_msg =
  h_realm :: "string option"
  h_roles :: roles
  h_authmethods :: "string list option"
  h_authid :: "string option"
  h_authrole :: "string option"
  h_authextra :: "authextra option"

datatype wamp_in =
    Hello hello_msg
  | Authenticate string
  | Abort string "string option"
  | Goodbye string "string option"
  | Other string

record hello_details =
  hd_realm :: "string option"
  hd_authmethods :: "string list option"
  hd_authid :: "string option"
  hd_authrole :: "string option"
  hd_authextra :: "authextra option"
  hd_session_roles :: roles
  hd_pending_session :: "nat option"

record custom =
  x_cb_node :: xvalue
  x_cb_worker :: xvalue
  x_cb_peer :: xvalue
  x_cb_pid :: xvalue

record welcome_msg =
  w_session :: "nat option"
  w_roles :: roles
  w_realm :: "string option"
  w_authid :: "string option"
  w_authrole :: "string option"
  w_authmethod :: "string option"
  w_authprovider :: "string option"
  w_authextra :: authextra
  w_custom :: custom

text \<open>Frames written to the transport. A reason \<open>None\<close> stands for the default of the
  WAMP library's constructor.\<close>

datatype frame =
    Welcome welcome_msg
  | ChallengeFrame string authextra
  | AbortFrame "string option" "string option"
  | GoodbyeFrame "string option" "string option"

subsection \<open>Authentication results\<close>

record accept =
  a_realm :: "string option"
  a_authid :: "string option"
  a_authrole :: "string option"
  a_authmethod :: "string option"
  a_authprovider :: "string option"
  a_authextra :: "authextra option"

datatype reply =
    Accept accept
  | Challenge string authextra
  | Deny "string option" "string option"
  | NoReply

text \<open>What a call into a pending authentication does: return a reply (possibly through
  a future that resolves to it), raise, or return a future that fails.\<close>

datatype pa_outcome = Returns reply | Throws error | Fails string

text \<open>What the future made from \<open>onHello\<close> or \<open>onAuthenticate\<close> does.\<close>

datatype future = Resolves reply | Rejects string

definition NO_SUCH_ROLE :: string where "NO_SUCH_ROLE = ''wamp.error.no_such_role''"
definition NO_SUCH_REALM :: string where "NO_SUCH_REALM = ''wamp.error.no_such_realm''"
definition NO_AUTH_METHOD :: string where "NO_AUTH_METHOD = ''wamp.error.no_auth_method''"

datatype klass =
    PendingAuthAnonymous
  | PendingAuthAnonymousProxy
  | PendingAuthTicket
  | PendingAuthWampCra
  | PendingAuthTLS
  | PendingAuthScram
  | PendingAuthCryptosign
  | PendingAuthCryptosignProxy
  | PendingAuthExtra string

type_synonym method_config = "(string \<times> string) list"

type_synonym auth_config = "(string \<times> method_config) list"

record pending_auth =
  pa_klass :: klass
  pa_session_id :: "nat option"
  pa_transport_details :: transport_details
  pa_config :: method_config

subsection \<open>Session details and close details\<close>

record session_details =
  sd_realm :: "string option"
  sd_session :: "nat option"
  sd_authid :: "string option"
  sd_authrole :: "string option"
  sd_authmethod :: "string option"
  sd_authprovider :: "string option"
  sd_authextra :: authextra
  sd_serializer :: "string option"
  sd_resumed :: bool
  sd_resumable :: bool
  sd_resume_token :: "string option"
  sd_transport :: transport_details

record close_details =
  cd_reason :: "string option"
  cd_message :: "string option"

record session_info =
  si_session :: "nat option"
  si_realm :: "string option"
  si_authid :: "string option"
  si_authrole :: "string option"

subsection \<open>Cookie store\<close>

record cookie_auth =
  ck_authid :: "string option"
  ck_authrole :: "string option"
  ck_authmethod :: "string option"
  ck_authrealm :: "string option"
  ck_authextra :: "authextra option"

record cookiestore =
  cs_cookies :: "string option \<rightharpoonup> cookie_auth"
  cs_protos :: "string option \<Rightarrow> nat list"
  cs_after_del :: "string option \<Rightarrow> nat list"

text \<open>Modelled from the spec: the cookie store of crossbar.router.cookiestore is not part
  of session.py. The spec gives its capability set: \<open>exists(cbtid)\<close>,
  \<open>getAuth(cbtid) \<rightarrow> (authid, authrole, authmethod, realm, authextra)\<close>,
  \<open>setAuth(cbtid, authid, authrole, authmethod, authextra, realm)\<close>, \<open>delAuth(cbtid)\<close>,
  \<open>getProtos(cbtid)\<close>, and says that the store records
  \<open>(cbtid \<rightarrow> authid, authrole, authmethod, authextra, realm)\<close>. It does not say
  which transports \<open>getProtos\<close> gives for a cookie id once \<open>delAuth\<close> has deleted its
  binding: that list is the store's own, \<open>cs_after_del\<close>. A store that keeps its
  connections has \<open>cs_after_del = cs_protos\<close>, one that forgets them with the cookie
  has the empty list.\<close>

definition cs_exists :: "cookiestore \<Rightarrow> string option \<Rightarrow> bool" where
  "cs_exists cs cbtid = (cs_cookies cs cbtid \<noteq> None)"

definition getAuth :: "cookiestore \<Rightarrow> string option \<Rightarrow> cookie_auth" where
  "getAuth cs cbtid =
     (case cs_cookies cs cbtid of
        Some c \<Rightarrow> c
      | None \<Rightarrow> \<lparr>ck_authid = None, ck_authrole = None, ck_authmethod = None,
                 ck_authrealm = None, ck_authextra = None\<rparr>)"

definition setAuth ::
  "cookiestore \<Rightarrow> string option \<Rightarrow> string option \<Rightarrow> string option \<Rightarrow> string option \<Rightarrow>
   authextra option \<Rightarrow> string option \<Rightarrow> cookiestore" where
  "setAuth cs cbtid authid authrole authmethod authextra realm =
     cs\<lparr>cs_cookies := (cs_cookies cs)(cbtid \<mapsto>
          \<lparr>ck_authid = authid, ck_authrole = authrole, ck_authmethod = authmethod,
           ck_authrealm = realm, ck_authextra = authextra\<rparr>)\<rparr>"

definition delAuth :: "cookiestore \<Rightarrow> string option \<Rightarrow> cookiestore" where
  "delAuth cs cbtid =
     cs\<lparr>cs_cookies := (cs_cookies cs)(cbtid := None),
        cs_protos := (cs_protos cs)(cbtid := cs_after_del cs cbtid)\<rparr>"

definition getProtos :: "cookiestore \<Rightarrow> string option \<Rightarrow> nat list" where
  "getProtos cs cbtid = cs_protos cs cbtid"

subsection \<open>Transport, router and session\<close>

text \<open>The transport object with the attributes the session reads and writes.
  \<open>t_ident\<close> is the object's identity, \<open>t_authrealm\<close> and \<open>t_cbtid\<close> are \<open>None\<close> when the
  attribute is missing, \<open>t_factory_config\<close> is \<open>None\<close> when the transport has no
  \<open>factory._config\<close>, and holds the entry \<open>'auth'\<close> of that dictionary otherwise.
  \<open>t_cookiestore\<close> is \<open>factory._cookiestore\<close>.\<close>

record transport =
  t_ident :: nat
  t_peer :: string
  t_authid :: "string option"
  t_authrole :: "string option"
  t_authmethod :: "string option"
  t_authprovider :: "string option"
  t_authrealm :: "string option option"
  t_authextra :: "authextra option"
  t_cbtid :: "string option option"
  t_details :: transport_details
  t_factory_config :: "auth_config option option"
  t_cookiestore :: "cookiestore option"

record stats_config =
  rated_message_size :: int
  trigger_after_rated_messages :: int
  trigger_after_duration :: int
  trigger_on_join :: bool
  trigger_on_leave :: bool

text \<open>What the session sees of a realm's router: \<open>has_role\<close>, the roles returned by
  \<open>attach\<close>, the realm's service session (\<open>None\<close> when there is none) and the entry
  \<open>'stats'\<close> of the realm configuration, with its defaults filled in.\<close>

record router =
  has_role :: "string option \<Rightarrow> bool"
  attach_roles :: roles
  realm_session :: "nat option"
  realm_stats :: "stats_config option"

datatype payload =
    PSession "nat option"
  | PDetails session_details
  | PStats session_info bool bool

datatype call =
    TransportSend frame
  | RouterAttach
  | RouterDetach
  | RouterProcess wamp_in
  | RouterSessionJoined session_details
  | RouterSessionLeft "session_details option" close_details
  | ServicePublish string payload
  | CookieSetAuth "string option" "string option" "string option" "string option"
      "authextra option" "string option"
  | CookieDelAuth "string option"
  | ProtoSendClose nat
  | SetStatsAutoreset int int int

record session =
  transport :: "transport option"
  transport_config :: "auth_config option"
  router :: "router option"
  realm :: "string option"
  testaments_detached :: "wamp_in list"
  testaments_destroyed :: "wamp_in list"
  goodbye_sent :: bool
  session_details :: "session_details option"
  service_session :: "nat option"
  pending_session_id :: "nat option"
  previous_session_id :: "nat option"
  session_id :: "nat option"
  session_roles :: "roles option"
  pending_auth :: "pending_auth option"
  authid :: "string option"
  authrole :: "string option"
  authmethod :: "string option"
  authprovider :: "string option"
  authextra :: "authextra option"
  stats_enabled :: "bool option"
  stats_trigger_on_leave :: "bool option"
  stats_has_triggered_first :: "bool option"
  trace :: "(nat option \<times> call) list"

text \<open>The router factory and the module-level tables of crossbar.router.auth, which
  session.py imports: they are parameters. \<open>routers\<close> is the factory's table of realms;
  \<open>worker_extra_auth_methods\<close> is \<open>None\<close> when the factory has no worker.\<close>

record env =
  node_id :: xvalue
  worker_id :: xvalue
  getpid :: int
  worker_extra_auth_methods :: "(string \<times> klass) list option"
  routers :: "string option \<Rightarrow> router option"
  AUTHMETHODS :: "string list"
  AUTHMETHOD_MAP :: "(string \<times> klass option) list"
  parse_cookie :: "string \<Rightarrow> (string \<times> string) list"
  pa_hello :: "pending_auth \<Rightarrow> string option \<Rightarrow> hello_details \<Rightarrow> pa_outcome"
  pa_authenticate :: "pending_auth \<Rightarrow> string \<Rightarrow> pa_outcome"

definition call :: "call \<Rightarrow> session \<Rightarrow> session" where
  "call c s = s\<lparr>trace := trace s @ [(session_id s, c)]\<rparr>"

definition attr_value :: "'a option option \<Rightarrow> 'a option" where
  "attr_value x = (case x of None \<Rightarrow> None | Some v \<Rightarrow> v)"

text \<open>\<open>self._transport.send(msg)\<close>: an \<open>AttributeError\<close> when the transport is \<open>None\<close>.\<close>

definition send :: "frame \<Rightarrow> session \<Rightarrow> session \<times> error option" where
  "send msg s =
     (case transport s of
        None \<Rightarrow> (s, Some (AttributeError ''send''))
      | Some t \<Rightarrow> (call (TransportSend msg) s, None))"

text \<open>\<open>try: self._router.detach(self) except Exception: ...\<close>: whatever is raised,
  also the \<open>AttributeError\<close> of a router that is \<open>None\<close>, is caught.\<close>

definition try_detach :: "session \<Rightarrow> session" where
  "try_detach s = (case router s of None \<Rightarrow> s | Some r \<Rightarrow> call RouterDetach s)"

subsection \<open>onLeave\<close>

definition process_testaments :: "session \<Rightarrow> session" where
  "process_testaments s =
     foldl (\<lambda>s' msg. call (RouterProcess msg) s') s
       (testaments_detached s @ testaments_destroyed s)"

definition session_info_short :: "session \<Rightarrow> session_info" where
  "session_info_short s =
     \<lparr>si_session = session_id s, si_realm = realm s, si_authid = authid s,
      si_authrole = authrole s\<rparr>"

definition leave_stats :: "session \<Rightarrow> session \<times> error option" where
  "leave_stats s =
     (case stats_enabled s of
        None \<Rightarrow> (s, Some (AttributeError ''_stats_enabled''))
      | Some False \<Rightarrow> (s, None)
      | Some True \<Rightarrow>
          (case stats_trigger_on_leave s of
             None \<Rightarrow> (s, Some (AttributeError ''_stats_trigger_on_leave''))
           | Some False \<Rightarrow> (s, None)
           | Some True \<Rightarrow>
               (case transport s of
                  None \<Rightarrow> (s, None)
                | Some t \<Rightarrow>
                    (case stats_has_triggered_first s of
                       None \<Rightarrow> (s, Some (AttributeError ''_stats_has_triggered_first''))
                     | Some b \<Rightarrow>
                         (call (ServicePublish ''wamp.session.on_stats''
                                  (PStats (session_info_short s) (\<not> b) True))
                            (s\<lparr>stats_has_triggered_first := Some True\<rparr>), None)))))"

definition kick_protos :: "nat \<Rightarrow> nat list \<Rightarrow> session \<Rightarrow> session" where
  "kick_protos me protos s =
     foldl (\<lambda>s' proto. if proto \<noteq> me then call (ProtoSendClose proto) s' else s') s protos"

definition logout :: "session \<Rightarrow> session" where
  "logout s =
     (case transport s of
        None \<Rightarrow> s
      | Some t \<Rightarrow>
          if hasattr_truthy (t_cbtid t) then
            (case t_cookiestore t of
               None \<Rightarrow> s
             | Some cs \<Rightarrow>
                 let cbtid = attr_value (t_cbtid t);
                     cs' = delAuth cs cbtid;
                     s1 = call (CookieDelAuth cbtid)
                            (s\<lparr>transport := Some (t\<lparr>t_cookiestore := Some cs'\<rparr>)\<rparr>)
                 in kick_protos (t_ident t) (getProtos cs' cbtid) s1)
          else s)"

definition onLeave :: "session \<Rightarrow> close_details \<Rightarrow> session \<times> error option" where
  "onLeave s details =
     (let s1 = (case router s of
                  None \<Rightarrow> s
                | Some r \<Rightarrow>
                    call (RouterSessionLeft (session_details s) details) (process_testaments s));
          r2 = (if service_session s1 \<noteq> None \<and> truthy_id (session_id s1)
                then leave_stats
                       (call (ServicePublish ''wamp.session.on_leave'' (PSession (session_id s1))) s1)
                else (s1, None))
      in case snd r2 of
           Some e \<Rightarrow> (fst r2, Some e)
         | None \<Rightarrow>
             let s3 = (fst r2)\<lparr>session_details := None\<rparr>
             in if cd_reason details = Some ''wamp.close.logout'' then (logout s3, None)
                else (s3, None))"

subsection \<open>onJoin\<close>

definition join_cookie :: "session \<Rightarrow> session_details \<Rightarrow> session \<times> error option" where
  "join_cookie s details =
     (case transport s of
        None \<Rightarrow> (s, None)
      | Some t \<Rightarrow>
          if hasattr_truthy (t_cbtid t) then
            if sd_authmethod details \<noteq> Some ''cookie'' then
              (case t_cookiestore t of
                 None \<Rightarrow> (s, Some (AttributeError ''setAuth''))
               | Some cs \<Rightarrow>
                   let cbtid = attr_value (t_cbtid t);
                       cs' = setAuth cs cbtid (sd_authid details) (sd_authrole details)
                               (sd_authmethod details) (Some (sd_authextra details)) (realm s)
                   in (call (CookieSetAuth cbtid (sd_authid details) (sd_authrole details)
                               (sd_authmethod details) (Some (sd_authextra details)) (realm s))
                         (s\<lparr>transport := Some (t\<lparr>t_cookiestore := Some cs'\<rparr>)\<rparr>), None))
            else (s, None)
          else (s, None))"

definition join_stats :: "env \<Rightarrow> session \<Rightarrow> session_details \<Rightarrow> session \<times> error option" where
  "join_stats env s details =
     (case routers env (realm s) of
        None \<Rightarrow> (s, Some (KeyError ''realm''))
      | Some r \<Rightarrow>
          (case realm_stats r of
             None \<Rightarrow> (s\<lparr>stats_enabled := Some False\<rparr>, None)
           | Some c \<Rightarrow>
               if \<not> (rated_message_size c > 0 \<and> rated_message_size c mod 2 = 0)
               then (s, Some AssertionError)
               else if \<not> (trigger_after_rated_messages c \<noteq> 0 \<or> trigger_after_duration c \<noteq> 0)
               then (s, Some AssertionError)
               else
                 let info = \<lparr>si_session = sd_session details, si_realm = realm s,
                             si_authid = sd_authid details, si_authrole = sd_authrole details\<rparr>;
                     s1 = s\<lparr>stats_trigger_on_leave := Some (trigger_on_leave c)\<rparr>
                 in (case transport s1 of
                       None \<Rightarrow>
                         if trigger_on_join c then (s1, Some (AttributeError ''_serializer''))
                         else (s1\<lparr>stats_has_triggered_first := Some False\<rparr>,
                               Some (AttributeError ''_serializer''))
                     | Some t \<Rightarrow>
                         let s2 = (if trigger_on_join c
                                   then (call (ServicePublish ''wamp.session.on_stats''
                                                 (PStats info True False)) s1)
                                          \<lparr>stats_has_triggered_first := Some True\<rparr>
                                   else s1\<lparr>stats_has_triggered_first := Some False\<rparr>);
                             s3 = call (SetStatsAutoreset (rated_message_size c)
                                          (trigger_after_rated_messages c)
                                          (trigger_after_duration c)) s2
                         in (s3\<lparr>stats_enabled := Some True\<rparr>, None))))"

definition onJoin :: "env \<Rightarrow> session \<Rightarrow> session_details \<Rightarrow> session \<times> error option" where
  "onJoin env s details =
     (case join_cookie s details of
        (s1, Some e) \<Rightarrow> (s1, Some e)
      | (s1, None) \<Rightarrow>
          (case router s1 of
             None \<Rightarrow> (s1, Some AssertionError)
           | Some r \<Rightarrow>
               let s2 = call (RouterSessionJoined details)
                          (s1\<lparr>service_session := realm_session r,
                              session_details := Some details\<rparr>)
               in if service_session s2 \<noteq> None
                  then join_stats env
                         (call (ServicePublish ''wamp.session.on_join'' (PDetails details)) s2)
                         details
                  else (s2, None)))"

text \<open>The callback the serializer is given by \<open>set_stats_autoreset\<close>.\<close>

definition on_stats :: "session \<Rightarrow> session_info \<Rightarrow> session \<times> error option" where
  "on_stats s info =
     (case stats_has_triggered_first s of
        None \<Rightarrow> (s, Some (AttributeError ''_stats_has_triggered_first''))
      | Some b \<Rightarrow>
          (call (ServicePublish ''wamp.session.on_stats'' (PStats info (\<not> b) False))
             (s\<lparr>stats_has_triggered_first := Some True\<rparr>), None))"

subsection \<open>welcome\<close>

text \<open>\<open>TransportDetails.parse\<close> of the WAMP library, on the value popped from
  \<open>authextra\<close>: anything but a transport descriptor is refused.\<close>

definition parse_transport_details :: "xvalue \<Rightarrow> error + transport_details" where
  "parse_transport_details v =
     (case v of XTransport td \<Rightarrow> Inr td | _ \<Rightarrow> Inl AssertionError)"

definition stamp_authextra :: "authextra option \<Rightarrow> custom \<Rightarrow> authextra" where
  "stamp_authextra ax c =
     AList.update ''x_cb_pid'' (x_cb_pid c)
       (AList.update ''x_cb_peer'' (x_cb_peer c)
          (AList.update ''x_cb_worker'' (x_cb_worker c)
             (AList.update ''x_cb_node'' (x_cb_node c)
                (case ax of None \<Rightarrow> [] | Some d \<Rightarrow> d))))"

definition details_of :: "session \<Rightarrow> authextra \<Rightarrow> transport_details \<Rightarrow> session_details" where
  "details_of s ax td =
     \<lparr>sd_realm = realm s, sd_session = session_id s, sd_authid = authid s,
      sd_authrole = authrole s, sd_authmethod = authmethod s,
      sd_authprovider = authprovider s, sd_authextra = ax,
      sd_serializer = channel_serializer td, sd_resumed = False, sd_resumable = False,
      sd_resume_token = None, sd_transport = td\<rparr>"

text \<open>The closure \<open>welcome\<close> of \<open>onMessage\<close> (primed here: the plain name is a
  keyword). \<open>self._router_factory.get(realm)\<close> is the
  factory's table; a realm that is not there makes it raise before it attaches
  or sends.\<close>

definition welcome' :: "env \<Rightarrow> session \<Rightarrow> accept \<Rightarrow> custom \<Rightarrow> session \<times> error option" where
  "welcome' env s a c =
     (let s1 = s\<lparr>realm := a_realm a, session_id := pending_session_id s,
                 pending_session_id := None, goodbye_sent := False,
                 router := routers env (a_realm a)\<rparr>
      in case router s1 of
           None \<Rightarrow>
             (s1, Some (LogicError ''logic error (no realm at a stage were we should have one)''))
         | Some r \<Rightarrow>
             let ax = stamp_authextra (a_authextra a) c;
                 s2 = s1\<lparr>authid := a_authid a, authrole := a_authrole a,
                         authmethod := a_authmethod a, authprovider := a_authprovider a,
                         authextra := Some ax\<rparr>;
                 s3 = call RouterAttach s2;
                 msg = Welcome \<lparr>w_session = session_id s3, w_roles = attach_roles r,
                          w_realm = a_realm a, w_authid = a_authid a,
                          w_authrole = a_authrole a, w_authmethod = a_authmethod a,
                          w_authprovider = a_authprovider a, w_authextra = ax, w_custom = c\<rparr>
             in (case transport s3 of
                  None \<Rightarrow> (s3, Some (AttributeError ''send''))
                | Some t \<Rightarrow>
                    let s4 = call (TransportSend msg) s3
                    in (case map_of ax ''transport'' of
                          None \<Rightarrow> onJoin env s4 (details_of s4 ax (t_details t))
                        | Some v \<Rightarrow>
                            let ax' = AList.delete ''transport'' ax;
                                s5 = s4\<lparr>authextra := Some ax'\<rparr>
                            in (case parse_transport_details v of
                                  Inl e \<Rightarrow> (s5, Some e)
                                | Inr td \<Rightarrow> onJoin env s5 (details_of s5 ax' td)))))"

subsection \<open>onHello\<close>

definition dq :: string where "dq = [CHR 0x22]"

definition fmt :: "string option \<Rightarrow> string" where
  "fmt x = (case x of None \<Rightarrow> ''None'' | Some v \<Rightarrow> v)"

text \<open>The text Python prints for a list of plain strings.\<close>

fun repr_items :: "string list \<Rightarrow> string" where
  "repr_items [] = []"
| "repr_items [x] = [CHR 0x27] @ x @ [CHR 0x27]"
| "repr_items (x # y # ys) = [CHR 0x27] @ x @ [CHR 0x27] @ '', '' @ repr_items (y # ys)"

definition repr_list :: "string list \<Rightarrow> string" where
  "repr_list xs = ''['' @ repr_items xs @ '']''"

definition internal_error :: "error \<Rightarrow> reply" where
  "internal_error e = Deny None (Some (''internal error: '' @ str_error e))"

definition effective_authmethods :: "hello_details \<Rightarrow> string list" where
  "effective_authmethods details =
     (case hd_authmethods details of
        None \<Rightarrow> [''anonymous'']
      | Some ms \<Rightarrow> if ms = [] then [''anonymous''] else ms)"

definition extra_auth_methods :: "env \<Rightarrow> (string \<times> klass) list" where
  "extra_auth_methods env =
     (case worker_extra_auth_methods env of None \<Rightarrow> [] | Some x \<Rightarrow> x)"

text \<open>Lines 818 to 841: the realm and authextra a cookie restores, or the revocation of
  a cookie's identity when the client does not offer \<open>cookie\<close>.\<close>

definition restore_or_revoke ::
  "session \<Rightarrow> transport \<Rightarrow> string list \<Rightarrow> string option \<Rightarrow> authextra option \<Rightarrow>
   session \<times> (error + string option \<times> authextra option)" where
  "restore_or_revoke s t authmethods realm0 authextra0 =
     (if hasattr_truthy (t_authrealm t) then
        if ''cookie'' \<in> set authmethods
        then (s, Inr (attr_value (t_authrealm t), t_authextra t))
        else if t_authprovider t = Some ''cookie'' then
          (let t1 = t\<lparr>t_authmethod := None, t_authrealm := Some None, t_authid := None\<rparr>
           in case t_cbtid t1 of
                None \<Rightarrow> (s\<lparr>transport := Some t1\<rparr>, Inr (realm0, authextra0))
              | Some c \<Rightarrow>
                  (case t_cookiestore t1 of
                     None \<Rightarrow> (s\<lparr>transport := Some t1\<rparr>, Inl (AttributeError ''setAuth''))
                   | Some cs \<Rightarrow>
                       (call (CookieSetAuth c None None None None None)
                          (s\<lparr>transport := Some (t1\<lparr>t_cookiestore :=
                                 Some (setAuth cs c None None None None None)\<rparr>)\<rparr>),
                        Inr (realm0, authextra0))))
        else (s, Inr (realm0, authextra0))
      else (s, Inr (realm0, authextra0)))"

definition provider_offered :: "transport \<Rightarrow> string list \<Rightarrow> bool" where
  "provider_offered t authmethods =
     (case t_authprovider t of None \<Rightarrow> False | Some p \<Rightarrow> p \<in> set authmethods)"

definition already_authenticated :: "transport \<Rightarrow> string list \<Rightarrow> bool" where
  "already_authenticated t authmethods =
     (t_authid t \<noteq> None \<and>
      (t_authmethod t = Some ''trusted'' \<or> provider_offered t authmethods))"

text \<open>Lines 849 to 863. \<open>self._router_factory[realm]\<close> raises \<open>KeyError\<close> for a realm
  the factory does not have.\<close>

definition hello_preauthenticated ::
  "env \<Rightarrow> transport \<Rightarrow> string option \<Rightarrow> authextra option \<Rightarrow> error + reply" where
  "hello_preauthenticated env t realm1 authextra1 =
     (case routers env realm1 of
        None \<Rightarrow> Inl (KeyError (fmt realm1))
      | Some r \<Rightarrow>
          if has_role r (t_authrole t)
          then Inr (Accept \<lparr>a_realm = realm1, a_authid = t_authid t,
                            a_authrole = t_authrole t, a_authmethod = t_authmethod t,
                            a_authprovider = t_authprovider t, a_authextra = authextra1\<rparr>)
          else Inr (Deny (Some NO_SUCH_ROLE)
                 (Some (''session was previously authenticated (via transport), but role ''
                        @ dq @ fmt (t_authrole t) @ dq @ '' no longer exists on realm ''
                        @ dq @ fmt realm1 @ dq))))"

definition lookup_klass ::
  "env \<Rightarrow> (string \<times> klass) list \<Rightarrow> string \<Rightarrow> error + klass option" where
  "lookup_klass env extra m =
     (case map_of (AUTHMETHOD_MAP env) m of
        Some k \<Rightarrow> Inr k
      | None \<Rightarrow> (case map_of extra m of Some k \<Rightarrow> Inr (Some k) | None \<Rightarrow> Inl (KeyError m)))"

text \<open>Lines 897 to 912 and 950 to 964: the class is looked up, the two assertions are
  checked, the pending authentication is stored, and its \<open>hello\<close> is returned.\<close>

definition start_pending ::
  "env \<Rightarrow> session \<Rightarrow> transport \<Rightarrow> (string \<times> klass) list \<Rightarrow> string \<Rightarrow> method_config \<Rightarrow>
   string option \<Rightarrow> hello_details \<Rightarrow> session \<times> (error + future)" where
  "start_pending env s t extra m config realm1 details =
     (case lookup_klass env extra m of
        Inl e \<Rightarrow> (s, Inl e)
      | Inr None \<Rightarrow> (s, Inl AssertionError)
      | Inr (Some k) \<Rightarrow>
          if \<not> truthy_id (pending_session_id s) then (s, Inl AssertionError)
          else
            let pa = \<lparr>pa_klass = k, pa_session_id = pending_session_id s,
                      pa_transport_details = t_details t, pa_config = config\<rparr>;
                s1 = s\<lparr>pending_auth := Some pa\<rparr>
            in (case pa_hello env pa realm1 details of
                  Returns r \<Rightarrow> (s1, Inr (Resolves r))
                | Throws e \<Rightarrow> (s1, Inl e)
                | Fails f \<Rightarrow> (s1, Inr (Rejects f))))"

definition cookie_or_serial :: "transport \<Rightarrow> string \<Rightarrow> string" where
  "cookie_or_serial t serial =
     (case attr_value (t_cbtid t) of
        None \<Rightarrow> serial
      | Some c \<Rightarrow> if c \<noteq> [] then c else serial)"

text \<open>Lines 871 to 912: no authentication is configured on the transport.\<close>

definition hello_unconfigured ::
  "env \<Rightarrow> string \<Rightarrow> session \<Rightarrow> transport \<Rightarrow> string list \<Rightarrow> string option \<Rightarrow> hello_details \<Rightarrow>
   session \<times> (error + future)" where
  "hello_unconfigured env serial s t authmethods realm1 details =
     (if ''anonymous'' \<notin> set authmethods
      then (s, Inr (Resolves (Deny (Some NO_AUTH_METHOD)
              (Some (''cannot authenticate [1] using any of the offered authmethods ''
                     @ repr_list authmethods)))))
      else if \<not> truthy_str realm1
      then (s, Inr (Resolves (Deny (Some NO_SUCH_REALM) (Some ''no realm requested''))))
      else if routers env realm1 = None
      then (s, Inr (Resolves (Deny (Some NO_SUCH_REALM)
              (Some (''no realm '' @ dq @ fmt realm1 @ dq @ '' exists on this router'')))))
      else start_pending env s t (extra_auth_methods env) ''anonymous''
             [(''type'', ''static''), (''authrole'', ''anonymous''),
              (''authid'', cookie_or_serial t serial)]
             realm1 details)"

definition pending_auth_methods :: "string list" where
  "pending_auth_methods =
     [''anonymous'', ''anonymous-proxy'', ''ticket'', ''wampcra'', ''tls'', ''cryptosign'',
      ''cryptosign-proxy'', ''scram'']"

text \<open>Lines 968 to 974: the cookie id read from the received HTTP headers.\<close>

definition received_cbtid :: "env \<Rightarrow> transport \<Rightarrow> error + string option" where
  "received_cbtid env t =
     (case http_headers_received (t_details t) of
        None \<Rightarrow> Inl (TypeError ''argument of type NoneType is not iterable'')
      | Some hs \<Rightarrow>
          (case map_of hs ''set-cookie'' of
             None \<Rightarrow> Inr None
           | Some v \<Rightarrow> Inr (map_of (parse_cookie env v) ''cbtid'')))"

text \<open>Lines 976 to 1008: \<open>Inr None\<close> is the \<open>continue\<close> of the loop.\<close>

definition hello_cookie :: "env \<Rightarrow> transport \<Rightarrow> error + reply option" where
  "hello_cookie env t =
     (case received_cbtid env t of
        Inl e \<Rightarrow> Inl e
      | Inr cbtid \<Rightarrow>
          if truthy_str cbtid then
            (case t_cookiestore t of
               None \<Rightarrow> Inl (AttributeError ''exists'')
             | Some cs \<Rightarrow>
                 if cs_exists cs cbtid then
                   (let c = getAuth cs cbtid
                    in Inr (Some (Accept \<lparr>a_realm = ck_authrealm c, a_authid = ck_authid c,
                                 a_authrole = ck_authrole c, a_authmethod = ck_authmethod c,
                                 a_authprovider = Some ''cookie'',
                                 a_authextra = ck_authextra c\<rparr>)))
                 else Inr None)
          else Inr None)"

text \<open>Lines 916 to 1017: the loop over the offered methods; \<open>offered\<close> is the whole list,
  for the text of the final denial.\<close>

fun try_authmethods ::
  "env \<Rightarrow> session \<Rightarrow> transport \<Rightarrow> auth_config \<Rightarrow> string option \<Rightarrow> hello_details \<Rightarrow>
   string list \<Rightarrow> string list \<Rightarrow> session \<times> (error + future)" where
  "try_authmethods env s t auth_config realm1 details offered [] =
     (s, Inr (Resolves (Deny (Some NO_AUTH_METHOD)
        (Some (''cannot authenticate [2] using any of the offered authmethods ''
               @ repr_list offered)))))"
| "try_authmethods env s t auth_config realm1 details offered (m # ms) =
     (if m \<notin> set (AUTHMETHODS env) \<and> map_of (extra_auth_methods env) m = None
      then (s, Inr (Resolves (Deny None (Some (''invalid authmethod '' @ dq @ m @ dq)))))
      else if map_of auth_config m = None
      then try_authmethods env s t auth_config realm1 details offered ms
      else if map_of (AUTHMETHOD_MAP env) m = None \<and> map_of (extra_auth_methods env) m = None
      then try_authmethods env s t auth_config realm1 details offered ms
      else if m \<in> set (pending_auth_methods @ map fst (extra_auth_methods env))
      then (case map_of auth_config m of
              None \<Rightarrow> (s, Inl (KeyError m))
            | Some config \<Rightarrow>
                start_pending env s t (extra_auth_methods env) m config realm1 details)
      else if m = ''cookie''
      then (case hello_cookie env t of
              Inl e \<Rightarrow> (s, Inl e)
            | Inr (Some r) \<Rightarrow> (s, Inr (Resolves r))
            | Inr None \<Rightarrow> try_authmethods env s t auth_config realm1 details offered ms)
      else (s, Inl (LogicError ''logic error'')))"

text \<open>The body of the \<open>try\<close> of \<open>onHello\<close>; \<open>serial\<close> is what
  \<open>util.generate_serial_number()\<close> returns if it is called.\<close>

definition onHello_try ::
  "env \<Rightarrow> string \<Rightarrow> session \<Rightarrow> string option \<Rightarrow> hello_details \<Rightarrow> session \<times> (error + future)" where
  "onHello_try env serial s realm0 details =
     (let authmethods = effective_authmethods details
      in case transport s of
           None \<Rightarrow> (s, Inl AssertionError)
         | Some t \<Rightarrow>
             (case restore_or_revoke s t authmethods realm0 (hd_authextra details) of
                (s1, Inl e) \<Rightarrow> (s1, Inl e)
              | (s1, Inr (realm1, authextra1)) \<Rightarrow>
                  (case transport s1 of
                     None \<Rightarrow> (s1, Inl (AttributeError ''_authid''))
                   | Some t1 \<Rightarrow>
                       if already_authenticated t1 authmethods
                       then (case hello_preauthenticated env t1 realm1 authextra1 of
                               Inl e \<Rightarrow> (s1, Inl e)
                             | Inr r \<Rightarrow> (s1, Inr (Resolves r)))
                       else
                         (case transport_config s1 of
                            None \<Rightarrow>
                              hello_unconfigured env serial s1 t1 authmethods realm1 details
                          | Some auth_config \<Rightarrow>
                              if auth_config = []
                              then hello_unconfigured env serial s1 t1 authmethods realm1 details
                              else try_authmethods env s1 t1 auth_config realm1 details
                                     authmethods authmethods))))"

definition onHello ::
  "env \<Rightarrow> string \<Rightarrow> session \<Rightarrow> string option \<Rightarrow> hello_details \<Rightarrow> session \<times> future" where
  "onHello env serial s realm0 details =
     (case onHello_try env serial s realm0 details of
        (s1, Inr f) \<Rightarrow> (s1, f)
      | (s1, Inl e) \<Rightarrow> (s1, Resolves (internal_error e)))"

subsection \<open>onAuthenticate\<close>

definition challenge_klass :: "klass \<Rightarrow> bool" where
  "challenge_klass k =
     (k = PendingAuthTicket \<or> k = PendingAuthWampCra \<or> k = PendingAuthCryptosign \<or>
      k = PendingAuthCryptosignProxy \<or> k = PendingAuthScram)"

definition onAuthenticate :: "env \<Rightarrow> session \<Rightarrow> string \<Rightarrow> future" where
  "onAuthenticate env s signature =
     (case pending_auth s of
        Some pa \<Rightarrow>
          if challenge_klass (pa_klass pa)
          then (case pa_authenticate env pa signature of
                  Returns r \<Rightarrow> Resolves r
                | Throws e \<Rightarrow> Resolves (internal_error e)
                | Fails f \<Rightarrow> Rejects f)
          else Resolves (Deny None (Some ''internal error: unexpected pending authentication''))
      | None \<Rightarrow> Resolves (Deny None (Some ''no pending authentication'')))"

subsection \<open>The callbacks of onMessage, onClose and leave\<close>

definition swallow_error_and_abort :: "session \<Rightarrow> string \<Rightarrow> session \<times> error option" where
  "swallow_error_and_abort s fail =
     (case send (AbortFrame (Some ''wamp.error.authorization_failed'')
                   (Some ''Internal server error'')) s of
        (s1, Some e) \<Rightarrow> (s1, Some e)
      | (s1, None) \<Rightarrow>
          (let s2 = (case router s1 of None \<Rightarrow> s1 | Some r \<Rightarrow> try_detach s1)
           in (s2\<lparr>session_id := None, previous_session_id := None,
                  pending_session_id := None\<rparr>, None)))"

definition custom_of :: "env \<Rightarrow> transport \<Rightarrow> custom" where
  "custom_of env t =
     \<lparr>x_cb_node = node_id env, x_cb_worker = worker_id env,
      x_cb_peer = XStr (t_peer t), x_cb_pid = XInt (getpid env)\<rparr>"

definition onHello_success :: "env \<Rightarrow> session \<Rightarrow> reply \<Rightarrow> session \<times> error option" where
  "onHello_success env s res =
     (case transport s of
        None \<Rightarrow> (s, None)
      | Some t \<Rightarrow>
          (case res of
             Accept a \<Rightarrow> welcome' env s a (custom_of env t)
           | Challenge method extra \<Rightarrow> send (ChallengeFrame method extra) s
           | Deny reason message \<Rightarrow> send (AbortFrame reason message) s
           | NoReply \<Rightarrow> (s, None)))"

definition onHello_error :: "session \<Rightarrow> string \<Rightarrow> session \<times> error option" where
  "onHello_error s err = swallow_error_and_abort s err"

definition onAuthenticate_success :: "env \<Rightarrow> session \<Rightarrow> reply \<Rightarrow> session \<times> error option" where
  "onAuthenticate_success env s res =
     (case transport s of
        None \<Rightarrow> (s, None)
      | Some t \<Rightarrow>
          (case res of
             Accept a \<Rightarrow> welcome' env s a (custom_of env t)
           | Deny reason message \<Rightarrow> send (AbortFrame reason message) s
           | _ \<Rightarrow> (s, None)))"

text \<open>The errback of the future of \<open>onAuthenticate\<close> (lines 623 to 628). Line 627,
  \<open>self.log.failure(err)\<close>, gives the logger the failure as its format string and no
  failure: the logger then makes one from the exception being handled, and in an
  errback there is none, so that the call raises and \<open>_swallow_error_and_abort\<close> on
  line 628 is not reached. Line 780 passes \<open>failure=fail\<close> and does not raise.\<close>

definition onAuthenticate_error :: "session \<Rightarrow> string \<Rightarrow> session \<times> error option" where
  "onAuthenticate_error s err = (s, Some NoCurrentExceptionError)"

definition details_of_hello :: "session \<Rightarrow> hello_msg \<Rightarrow> hello_details" where
  "details_of_hello s h =
     \<lparr>hd_realm = h_realm h, hd_authmethods = h_authmethods h, hd_authid = h_authid h,
      hd_authrole = h_authrole h, hd_authextra = h_authextra h,
      hd_session_roles = h_roles h, hd_pending_session = pending_session_id s\<rparr>"

text \<open>The branch of \<open>onMessage\<close> for a joined session that receives GOODBYE
  (lines 655 to 698).\<close>

definition goodbye_joined ::
  "session \<Rightarrow> string \<Rightarrow> string option \<Rightarrow> session \<times> error option" where
  "goodbye_joined s reason message =
     (case (if \<not> goodbye_sent s
            then (case send (GoodbyeFrame None None) s of
                    (s', None) \<Rightarrow> (s'\<lparr>goodbye_sent := True\<rparr>, None)
                  | (s', Some e) \<Rightarrow> (s', Some e))
            else (s, None)) of
        (s1, Some e) \<Rightarrow> (s1, Some e)
      | (s1, None) \<Rightarrow>
          (let s2 = try_detach s1;
               s3 = s2\<lparr>previous_session_id := session_id s2\<rparr>;
               s4 = s3\<lparr>session_id := None, pending_session_id := None\<rparr>;
               s5 = (if service_session s4 \<noteq> None
                     then call (ServicePublish ''wamp.session.on_leave''
                                  (PSession (previous_session_id s4))) s4
                     else s4)
           in onLeave s5 \<lparr>cd_reason = Some reason, cd_message = message\<rparr>))"

text \<open>\<open>onMessage\<close>. \<open>uid\<close> is what \<open>util.id()\<close> returns if it is called, \<open>serial\<close> what
  \<open>util.generate_serial_number()\<close> returns. The future of \<open>onHello\<close> and of
  \<open>onAuthenticate\<close> is resolved at once here; a callback that runs later is the
  callback applied to the later session. What a callback raises stays in the future
  and does not leave \<open>onMessage\<close>.\<close>

definition onMessage ::
  "env \<Rightarrow> nat \<Rightarrow> string \<Rightarrow> session \<Rightarrow> wamp_in \<Rightarrow> session \<times> error option" where
  "onMessage env uid serial s msg =
     (if session_id s = None then
        (let s0 = (if \<not> truthy_id (pending_session_id s)
                   then s\<lparr>pending_session_id := Some uid\<rparr> else s)
         in case msg of
              Hello h \<Rightarrow>
                (let s1 = s0\<lparr>session_roles := Some (h_roles h)\<rparr>
                 in case onHello env serial s1 (h_realm h) (details_of_hello s1 h) of
                      (s2, Resolves res) \<Rightarrow> (fst (onHello_success env s2 res), None)
                    | (s2, Rejects err) \<Rightarrow> (fst (onHello_error s2 err), None))
            | Authenticate signature \<Rightarrow>
                (case onAuthenticate env s0 signature of
                   Resolves res \<Rightarrow> (fst (onAuthenticate_success env s0 res), None)
                 | Rejects err \<Rightarrow> (fst (onAuthenticate_error s0 err), None))
            | Abort reason message \<Rightarrow>
                (case onLeave s0 \<lparr>cd_reason = Some reason, cd_message = message\<rparr> of
                   (s1, Some e) \<Rightarrow> (s1, Some e)
                 | (s1, None) \<Rightarrow>
                     (s1\<lparr>session_id := None, previous_session_id := None,
                         pending_session_id := None\<rparr>, None))
            | _ \<Rightarrow> (s0, None))
      else
        (case msg of
           Hello h \<Rightarrow> (s, None)
         | Goodbye reason message \<Rightarrow> goodbye_joined s reason message
         | _ \<Rightarrow> (call (RouterProcess msg) s, None)))"

definition onClose :: "session \<Rightarrow> bool \<Rightarrow> session \<times> error option" where
  "onClose s wasClean =
     (case (if service_session s \<noteq> None
            then (case transport s of
                    None \<Rightarrow> (s, Some (AttributeError ''_serializer''))
                  | Some t \<Rightarrow>
                      (call (ServicePublish ''wamp.session.on_stats''
                               (PStats (session_info_short s) False True)) s, None))
            else (s, None)) of
        (s1, Some e) \<Rightarrow> (s1, Some e)
      | (s1, None) \<Rightarrow>
          (let s2 = s1\<lparr>transport := None\<rparr>;
               s3 = (if truthy_id (session_id s2)
                     then (try_detach
                             (fst (onLeave s2 \<lparr>cd_reason = None, cd_message = None\<rparr>)))
                            \<lparr>session_id := None\<rparr>
                     else s2)
           in (s3\<lparr>previous_session_id := None, pending_session_id := None,
                  authid := None, authrole := None, authmethod := None,
                  authprovider := None\<rparr>, None)))"


text \<open>\<open>__init__\<close> followed by \<open>onOpen\<close>: the session a transport starts with. The
  attributes \<open>_stats_*\<close> do not exist before the first \<open>onJoin\<close>.\<close>

definition onOpen :: "transport \<Rightarrow> session" where
  "onOpen t =
     \<lparr>transport = Some t,
      transport_config = (case t_factory_config t of None \<Rightarrow> None | Some c \<Rightarrow> c),
      router = None, realm = None, testaments_detached = [], testaments_destroyed = [],
      goodbye_sent = False, session_details = None, service_session = None,
      pending_session_id = None, previous_session_id = None, session_id = None,
      session_roles = None, pending_auth = None, authid = None, authrole = None,
      authmethod = None, authprovider = None, authextra = None, stats_enabled = None,
      stats_trigger_on_leave = None, stats_has_triggered_first = None, trace = []\<rparr>"

subsection \<open>Reading the trace\<close>

text \<open>The frames written to the transport, in order.\<close>

fun frames_of :: "(nat option \<times> call) list \<Rightarrow> frame list" where
  "frames_of [] = []"
| "frames_of ((sid, TransportSend f) # cs) = f # frames_of cs"
| "frames_of (c # cs) = frames_of cs"

definition frames :: "session \<Rightarrow> frame list" where
  "frames s = frames_of (trace s)"

fun is_welcome :: "frame \<Rightarrow> bool" where
  "is_welcome (Welcome w) = True"
| "is_welcome f = False"

fun is_abort :: "frame \<Rightarrow> bool" where
  "is_abort (AbortFrame r m) = True"
| "is_abort f = False"

fun is_goodbye :: "frame \<Rightarrow> bool" where
  "is_goodbye (GoodbyeFrame r m) = True"
| "is_goodbye f = False"

text \<open>The publications of \<open>wamp.session.on_leave\<close>, each with the session id the
  publishing session holds when it publishes, and the id it publishes.\<close>

fun on_leave_of :: "(nat option \<times> call) list \<Rightarrow> (nat option \<times> payload) list" where
  "on_leave_of [] = []"
| "on_leave_of ((sid, ServicePublish topic p) # cs) =
     (if topic = ''wamp.session.on_leave'' then (sid, p) # on_leave_of cs
      else on_leave_of cs)"
| "on_leave_of (c # cs) = on_leave_of cs"

text \<open>The transports \<open>sendClose\<close> was called on, and the cookie ids \<open>delAuth\<close> was
  called with, in order.\<close>

fun kicked_of :: "(nat option \<times> call) list \<Rightarrow> nat list" where
  "kicked_of [] = []"
| "kicked_of ((sid, ProtoSendClose p) # cs) = p # kicked_of cs"
| "kicked_of (c # cs) = kicked_of cs"

fun deleted_of :: "(nat option \<times> call) list \<Rightarrow> string option list" where
  "deleted_of [] = []"
| "deleted_of ((sid, CookieDelAuth c) # cs) = c # deleted_of cs"
| "deleted_of (c # cs) = deleted_of cs"

subsection \<open>Methods the loop of onHello passes over\<close>

text \<open>An offered method the loop of \<open>onHello\<close> passes over with \<open>continue\<close>: it is a
  known method, and it is not configured on the transport or not available.\<close>

definition skipped :: "env \<Rightarrow> auth_config \<Rightarrow> string \<Rightarrow> bool" where
  "skipped env auth_config m =
     ((m \<in> set (AUTHMETHODS env) \<or> map_of (extra_auth_methods env) m \<noteq> None) \<and>
      (map_of auth_config m = None \<or>
       (map_of (AUTHMETHOD_MAP env) m = None \<and> map_of (extra_auth_methods env) m = None)))"

subsection \<open>Concrete sessions\<close>

text \<open>A router worker with one realm, \<open>realm1\<close>, whose roles are \<open>user\<close> and
  \<open>anonymous\<close>, and a WebSocket transport that tracks the cookie \<open>c1\<close>, shared with
  the transports 2 and 3.\<close>

definition ex_details :: transport_details where
  "ex_details =
     \<lparr>channel_serializer = Some ''json'',
      http_headers_received = Some [(''set-cookie'', ''cbtid=c1'')]\<rparr>"

definition ex_store :: cookiestore where
  "ex_store =
     \<lparr>cs_cookies = Map.empty,
      cs_protos = (\<lambda>c. if c = Some ''c1'' then [1, 2, 3] else []),
      cs_after_del = (\<lambda>c. if c = Some ''c1'' then [1, 2, 3] else [])\<rparr>"


definition ex_transport :: transport where
  "ex_transport =
     \<lparr>t_ident = 1, t_peer = ''tcp4:127.0.0.1:9000'', t_authid = None, t_authrole = None,
      t_authmethod = None, t_authprovider = None, t_authrealm = None, t_authextra = None,
      t_cbtid = Some (Some ''c1''), t_details = ex_details, t_factory_config = Some None,
      t_cookiestore = Some ex_store\<rparr>"

definition ex_router :: router where
  "ex_router =
     \<lparr>has_role = (\<lambda>r. r = Some ''user'' \<or> r = Some ''anonymous''),
      attach_roles = [''broker'', ''dealer''], realm_session = Some 1000,
      realm_stats = None\<rparr>"

definition ex_accept :: accept where
  "ex_accept =
     \<lparr>a_realm = Some ''realm1'', a_authid = Some ''alice'', a_authrole = Some ''user'',
      a_authmethod = Some ''ticket'', a_authprovider = Some ''static'', a_authextra = None\<rparr>"

definition ex_env :: env where
  "ex_env =
     \<lparr>node_id = XStr ''node1'', worker_id = XStr ''worker1'', getpid = 4242,
      worker_extra_auth_methods = None,
      routers = (\<lambda>r. if r = Some ''realm1'' then Some ex_router else None),
      AUTHMETHODS =
        [''anonymous'', ''anonymous-proxy'', ''ticket'', ''wampcra'', ''tls'', ''cookie'',
         ''cryptosign'', ''cryptosign-proxy'', ''scram''],
      AUTHMETHOD_MAP =
        [(''anonymous'', Some PendingAuthAnonymous),
         (''anonymous-proxy'', Some PendingAuthAnonymousProxy),
         (''ticket'', Some PendingAuthTicket), (''wampcra'', Some PendingAuthWampCra),
         (''tls'', Some PendingAuthTLS), (''cookie'', None),
         (''cryptosign'', Some PendingAuthCryptosign),
         (''cryptosign-proxy'', Some PendingAuthCryptosignProxy),
         (''scram'', Some PendingAuthScram)],
      parse_cookie = (\<lambda>v. if v = ''cbtid=c1'' then [(''cbtid'', ''c1'')] else []),
      pa_hello =
        (\<lambda>pa r d. if pa_klass pa = PendingAuthAnonymous
                  then Returns (Accept \<lparr>a_realm = r, a_authid = Some ''anon'',
                         a_authrole = Some ''anonymous'', a_authmethod = Some ''anonymous'',
                         a_authprovider = Some ''static'', a_authextra = None\<rparr>)
                  else Returns (Challenge ''ticket'' [])),
      pa_authenticate =
        (\<lambda>pa sig. if sig = ''secret'' then Returns (Accept ex_accept)
                  else Returns (Deny (Some ''wamp.error.not_authorized'') None))\<rparr>"

text \<open>The session of that transport after its first message gave it the pending id 7,
  the same session once the transport is closed, once it is challenged, and once it
  has joined \<open>realm1\<close> as session 7.\<close>

definition ex_opened :: session where
  "ex_opened = (onOpen ex_transport)\<lparr>pending_session_id := Some 7\<rparr>"

definition ex_lost :: session where
  "ex_lost = fst (onClose ex_opened True)"

definition ex_pa :: pending_auth where
  "ex_pa =
     \<lparr>pa_klass = PendingAuthTicket, pa_session_id = Some 7,
      pa_transport_details = ex_details, pa_config = [(''type'', ''static'')]\<rparr>"

definition ex_challenged :: session where
  "ex_challenged = ex_opened\<lparr>pending_auth := Some ex_pa\<rparr>"

definition ex_joined :: session where
  "ex_joined =
     (onOpen ex_transport)
       \<lparr>router := Some ex_router, realm := Some ''realm1'', service_session := Some 1000,
        session_id := Some 7, session_roles := Some [''subscriber''],
        authid := Some ''alice'', authrole := Some ''user'', authmethod := Some ''ticket'',
        authprovider := Some ''static'', authextra := Some [(''x_cb_node'', XStr ''node1'')],
        stats_enabled := Some False\<rparr>"


text \<open>HELLO details that offer one method and name a realm.\<close>

definition ex_offer :: "string list option \<Rightarrow> string option \<Rightarrow> hello_details" where
  "ex_offer ms r =
     \<lparr>hd_realm = r, hd_authmethods = ms, hd_authid = None, hd_authrole = None,
      hd_authextra = None, hd_session_roles = [''subscriber''], hd_pending_session = Some 7\<rparr>"

text \<open>A transport that was authenticated before the HELLO, as \<open>alice\<close> by a TLS client
  certificate; the same with a role that \<open>realm1\<close> does not have; and the same with the
  identity restored from a cookie for \<open>realm1\<close>.\<close>

definition ex_trusted :: transport where
  "ex_trusted =
     \<lparr>t_ident = 4, t_peer = ''tcp4:127.0.0.1:9001'', t_authid = Some ''alice'',
      t_authrole = Some ''user'', t_authmethod = Some ''trusted'', t_authprovider = Some ''tls'',
      t_authrealm = None, t_authextra = None, t_cbtid = None, t_details = ex_details,
      t_factory_config = Some None, t_cookiestore = None\<rparr>"

definition ex_trusted_ghost :: transport where
  "ex_trusted_ghost = ex_trusted\<lparr>t_authrole := Some ''ghost''\<rparr>"

definition ex_trusted_cookie :: transport where
  "ex_trusted_cookie =
     ex_trusted\<lparr>t_authprovider := Some ''cookie'', t_authrealm := Some (Some ''realm1'')\<rparr>"

text \<open>The details \<open>welcome\<close> hands to \<open>onJoin\<close> for the joined session, the cookie store
  that \<open>onJoin\<close> leaves behind, and a second transport of the same factory that
  presents the cookie \<open>c1\<close>, with cookie and ticket authentication configured, and
  with nothing configured.\<close>

definition ex_join_details :: session_details where
  "ex_join_details = details_of ex_joined [(''x_cb_node'', XStr ''node1'')] ex_details"

definition ex_store_joined :: "cookiestore option" where
  "ex_store_joined =
     (case transport (fst (onJoin ex_env ex_joined ex_join_details)) of
        None \<Rightarrow> None
      | Some t \<Rightarrow> t_cookiestore t)"

definition ex_fresh_transport :: transport where
  "ex_fresh_transport =
     ex_transport\<lparr>t_ident := 2,
       t_factory_config := Some (Some [(''cookie'', []), (''ticket'', [(''type'', ''static'')])]),
       t_cookiestore := ex_store_joined\<rparr>"

definition ex_fresh :: session where
  "ex_fresh = (onOpen ex_fresh_transport)\<lparr>pending_session_id := Some 8\<rparr>"

definition ex_fresh_unconfigured :: session where
  "ex_fresh_unconfigured =
     (onOpen (ex_fresh_transport\<lparr>t_factory_config := Some None\<rparr>))
       \<lparr>pending_session_id := Some 8\<rparr>"






section \<open>Frames, fields and traces of the methods\<close>

lemma frames_of_append: "frames_of (xs @ ys) = frames_of xs @ frames_of ys"
  by (induction xs rule: frames_of.induct) simp_all

lemma frames_call [simp]:
  "frames (call c s) = frames s @ (case c of TransportSend f \<Rightarrow> [f] | _ \<Rightarrow> [])"
  by (cases c) (simp_all add: frames_def call_def frames_of_append)

lemma call_fields [simp]:
  "transport (call c s) = transport s"
  "router (call c s) = router s"
  "session_id (call c s) = session_id s"
  "pending_session_id (call c s) = pending_session_id s"
  "previous_session_id (call c s) = previous_session_id s"
  "pending_auth (call c s) = pending_auth s"
  "authextra (call c s) = authextra s"
  "authid (call c s) = authid s"
  "authrole (call c s) = authrole s"
  "authmethod (call c s) = authmethod s"
  "authprovider (call c s) = authprovider s"
  "service_session (call c s) = service_session s"
  "goodbye_sent (call c s) = goodbye_sent s"
  "stats_enabled (call c s) = stats_enabled s"
  "stats_trigger_on_leave (call c s) = stats_trigger_on_leave s"
  "stats_has_triggered_first (call c s) = stats_has_triggered_first s"
  "realm (call c s) = realm s"
  "testaments_detached (call c s) = testaments_detached s"
  "testaments_destroyed (call c s) = testaments_destroyed s"
  "session_details (call c s) = session_details s"
  "transport_config (call c s) = transport_config s"
  "session_roles (call c s) = session_roles s"
  "trace (call c s) = trace s @ [(session_id s, c)]"
  by (simp_all add: call_def)

lemma frames_update [simp]:
  "frames (s\<lparr>transport := x0\<rparr>) = frames s"
  "frames (s\<lparr>transport_config := x1\<rparr>) = frames s"
  "frames (s\<lparr>router := x2\<rparr>) = frames s"
  "frames (s\<lparr>realm := x3\<rparr>) = frames s"
  "frames (s\<lparr>testaments_detached := x4\<rparr>) = frames s"
  "frames (s\<lparr>testaments_destroyed := x5\<rparr>) = frames s"
  "frames (s\<lparr>goodbye_sent := x6\<rparr>) = frames s"
  "frames (s\<lparr>session_details := x7\<rparr>) = frames s"
  "frames (s\<lparr>service_session := x8\<rparr>) = frames s"
  "frames (s\<lparr>pending_session_id := x9\<rparr>) = frames s"
  "frames (s\<lparr>previous_session_id := x10\<rparr>) = frames s"
  "frames (s\<lparr>session_id := x11\<rparr>) = frames s"
  "frames (s\<lparr>session_roles := x12\<rparr>) = frames s"
  "frames (s\<lparr>pending_auth := x13\<rparr>) = frames s"
  "frames (s\<lparr>authid := x14\<rparr>) = frames s"
  "frames (s\<lparr>authrole := x15\<rparr>) = frames s"
  "frames (s\<lparr>authmethod := x16\<rparr>) = frames s"
  "frames (s\<lparr>authprovider := x17\<rparr>) = frames s"
  "frames (s\<lparr>authextra := x18\<rparr>) = frames s"
  "frames (s\<lparr>stats_enabled := x19\<rparr>) = frames s"
  "frames (s\<lparr>stats_trigger_on_leave := x20\<rparr>) = frames s"
  "frames (s\<lparr>stats_has_triggered_first := x21\<rparr>) = frames s"
  by (simp_all add: frames_def)

lemma frames_trace_update [simp]: "frames (s\<lparr>trace := xs\<rparr>) = frames_of xs"
  by (simp add: frames_def)

lemma process_testaments_eq:
  "process_testaments s =
     s\<lparr>trace := trace s @ map (\<lambda>msg. (session_id s, RouterProcess msg))
                            (testaments_detached s @ testaments_destroyed s)\<rparr>"
proof -
  have "foldl (\<lambda>s' msg. call (RouterProcess msg) s') s ms =
          s\<lparr>trace := trace s @ map (\<lambda>msg. (session_id s, RouterProcess msg)) ms\<rparr>" for ms s
    by (induction ms arbitrary: s) (simp_all add: call_def)
  then show ?thesis by (simp add: process_testaments_def)
qed

lemma kick_protos_eq:
  "kick_protos me ps s =
     s\<lparr>trace := trace s @ map (\<lambda>p. (session_id s, ProtoSendClose p))
                            (filter (\<lambda>p. p \<noteq> me) ps)\<rparr>"
  unfolding kick_protos_def by (induction ps arbitrary: s) (simp_all add: call_def)

lemma frames_of_process [simp]:
  "frames_of (map (\<lambda>msg. (sid, RouterProcess msg)) ms) = []"
  by (induction ms) simp_all

lemma frames_of_kick [simp]:
  "frames_of (map (\<lambda>p. (sid, ProtoSendClose p)) ps) = []"
  by (induction ps) simp_all

lemma process_testaments_frames [simp]: "frames (process_testaments s) = frames s"
  by (simp add: process_testaments_eq frames_def frames_of_append)

lemma kick_protos_frames [simp]: "frames (kick_protos me ps s) = frames s"
  by (simp add: kick_protos_eq frames_def frames_of_append)

lemma process_testaments_fields [simp]:
  "session_id (process_testaments s) = session_id s"
  "goodbye_sent (process_testaments s) = goodbye_sent s"
  "pending_auth (process_testaments s) = pending_auth s"
  "authextra (process_testaments s) = authextra s"
  "transport (process_testaments s) = transport s"
  "service_session (process_testaments s) = service_session s"
  "previous_session_id (process_testaments s) = previous_session_id s"
  "session_details (process_testaments s) = session_details s"
  by (simp_all add: process_testaments_eq)

lemma kick_protos_fields [simp]:
  "session_id (kick_protos me ps s) = session_id s"
  "goodbye_sent (kick_protos me ps s) = goodbye_sent s"
  "pending_auth (kick_protos me ps s) = pending_auth s"
  "authextra (kick_protos me ps s) = authextra s"
  "transport (kick_protos me ps s) = transport s"
  "previous_session_id (kick_protos me ps s) = previous_session_id s"
  by (simp_all add: kick_protos_eq)

lemma logout_frames [simp]: "frames (logout s) = frames s"
  by (simp add: logout_def Let_def split: option.splits)

lemma leave_stats_frames [simp]: "frames (fst (leave_stats s)) = frames s"
  by (simp add: leave_stats_def split: option.splits bool.splits)

lemma onLeave_frames [simp]: "frames (fst (onLeave s d)) = frames s"
  by (simp add: onLeave_def Let_def split: option.splits)

lemma join_cookie_frames [simp]: "frames (fst (join_cookie s d)) = frames s"
  by (simp add: join_cookie_def Let_def split: option.splits)

lemma join_stats_frames [simp]: "frames (fst (join_stats env s d)) = frames s"
  by (simp add: join_stats_def Let_def split: option.splits)

lemma onJoin_frames [simp]: "frames (fst (onJoin env s d)) = frames s"
proof -
  obtain s1 e1 where j: "join_cookie s d = (s1, e1)" by (cases "join_cookie s d")
  have f1: "frames s1 = frames s" using join_cookie_frames [of s d] j by simp
  show ?thesis
    by (simp add: onJoin_def j f1 Let_def split: option.splits)
qed



lemma logout_fields [simp]:
  "session_id (logout s) = session_id s"
  "goodbye_sent (logout s) = goodbye_sent s"
  "pending_auth (logout s) = pending_auth s"
  "authextra (logout s) = authextra s"
  "previous_session_id (logout s) = previous_session_id s"
  by (simp_all add: logout_def Let_def split: option.splits)

lemma leave_stats_fields [simp]:
  "session_id (fst (leave_stats s)) = session_id s"
  "goodbye_sent (fst (leave_stats s)) = goodbye_sent s"
  "pending_auth (fst (leave_stats s)) = pending_auth s"
  "authextra (fst (leave_stats s)) = authextra s"
  "previous_session_id (fst (leave_stats s)) = previous_session_id s"
  by (simp_all add: leave_stats_def split: option.splits bool.splits)

lemma onLeave_fields [simp]:
  "session_id (fst (onLeave s d)) = session_id s"
  "goodbye_sent (fst (onLeave s d)) = goodbye_sent s"
  "pending_auth (fst (onLeave s d)) = pending_auth s"
  "authextra (fst (onLeave s d)) = authextra s"
  "previous_session_id (fst (onLeave s d)) = previous_session_id s"
  by (simp_all add: onLeave_def Let_def split: option.splits)

lemma onLeave_returns:
  "session_id s = None \<Longrightarrow> snd (onLeave s d) = None"
  by (simp add: onLeave_def Let_def truthy_id_def split: option.splits)

lemma send_frames:
  "transport s = Some t \<Longrightarrow> frames (fst (send f s)) = frames s @ [f]"
  by (simp add: send_def)


lemma on_leave_of_append:
  "on_leave_of (xs @ ys) = on_leave_of xs @ on_leave_of ys"
  by (induction xs rule: on_leave_of.induct) simp_all

lemma on_leave_of_process [simp]:
  "on_leave_of (map (\<lambda>msg. (sid, RouterProcess msg)) ms) = []"
  by (induction ms) simp_all

lemma on_leave_of_kick [simp]:
  "on_leave_of (map (\<lambda>p. (sid, ProtoSendClose p)) ps) = []"
  by (induction ps) simp_all

lemma onLeave_on_leave_of:
  "session_id s = None \<Longrightarrow>
   on_leave_of (trace (fst (onLeave s d))) = on_leave_of (trace s)"
  by (simp add: onLeave_def logout_def Let_def truthy_id_def process_testaments_eq
        kick_protos_eq call_def on_leave_of_append split: option.splits)

lemma try_detach_fields [simp]:
  "session_id (try_detach s) = session_id s"
  "goodbye_sent (try_detach s) = goodbye_sent s"
  "pending_auth (try_detach s) = pending_auth s"
  "authextra (try_detach s) = authextra s"
  "service_session (try_detach s) = service_session s"
  "frames (try_detach s) = frames s"
  "on_leave_of (trace (try_detach s)) = on_leave_of (trace s)"
  by (simp_all add: try_detach_def on_leave_of_append split: option.splits)

lemma goodbye_joined_on_leave:
  assumes "session_id s = Some n" "goodbye_sent s \<or> transport s \<noteq> None"
  shows "snd (goodbye_joined s reason message) = None"
    and "session_id (fst (goodbye_joined s reason message)) = None"
    and "previous_session_id (fst (goodbye_joined s reason message)) = Some n"
    and "on_leave_of (trace (fst (goodbye_joined s reason message))) =
           on_leave_of (trace s) @
             (if service_session s = None then [] else [(None, PSession (Some n))])"
  using assms
  by (auto simp: goodbye_joined_def send_def Let_def onLeave_returns onLeave_on_leave_of
        call_def on_leave_of_append)


lemma onClose_clears:
  assumes "service_session s = None \<or> transport s \<noteq> None" "session_id s \<noteq> Some 0"
  shows "snd (onClose s wasClean) = None"
    and "session_id (fst (onClose s wasClean)) = None"
    and "previous_session_id (fst (onClose s wasClean)) = None"
    and "pending_session_id (fst (onClose s wasClean)) = None"
    and "authid (fst (onClose s wasClean)) = None"
    and "authrole (fst (onClose s wasClean)) = None"
    and "authmethod (fst (onClose s wasClean)) = None"
    and "authprovider (fst (onClose s wasClean)) = None"
    and "authextra (fst (onClose s wasClean)) = authextra s"
  using assms
  by (auto simp: onClose_def Let_def truthy_id_def split: option.splits)

lemma abort_unjoined:
  assumes "session_id s = None"
  shows "snd (onMessage env uid serial s (Abort reason message)) = None"
    and "session_id (fst (onMessage env uid serial s (Abort reason message))) = None"
    and "previous_session_id (fst (onMessage env uid serial s (Abort reason message))) = None"
    and "pending_session_id (fst (onMessage env uid serial s (Abort reason message))) = None"
    and "pending_auth (fst (onMessage env uid serial s (Abort reason message))) =
           pending_auth s"
    and "trace (fst (onMessage env uid serial s (Abort reason message))) =
           trace (fst (onLeave
             (if \<not> truthy_id (pending_session_id s) then s\<lparr>pending_session_id := Some uid\<rparr>
              else s)
             \<lparr>cd_reason = Some reason, cd_message = message\<rparr>))"
proof -
  let ?s0 = "if \<not> truthy_id (pending_session_id s) then s\<lparr>pending_session_id := Some uid\<rparr>
             else s"
  let ?d = "\<lparr>cd_reason = Some reason, cd_message = message\<rparr>"
  have sid: "session_id ?s0 = None" using assms by simp
  obtain s1 e1 where l: "onLeave ?s0 ?d = (s1, e1)" by (cases "onLeave ?s0 ?d")
  have e1: "e1 = None" using onLeave_returns [OF sid, of ?d] l by simp
  have pa: "pending_auth s1 = pending_auth s"
    using onLeave_fields(3) [of ?s0 ?d] l by simp
  have om: "onMessage env uid serial s (Abort reason message) =
              (s1\<lparr>session_id := None, previous_session_id := None,
                  pending_session_id := None\<rparr>, None)"
    using assms l e1 by (simp add: onMessage_def Let_def)
  show "snd (onMessage env uid serial s (Abort reason message)) = None"
    and "session_id (fst (onMessage env uid serial s (Abort reason message))) = None"
    and "previous_session_id (fst (onMessage env uid serial s (Abort reason message))) = None"
    and "pending_session_id (fst (onMessage env uid serial s (Abort reason message))) = None"
    and "pending_auth (fst (onMessage env uid serial s (Abort reason message))) =
           pending_auth s"
    and "trace (fst (onMessage env uid serial s (Abort reason message))) =
           trace (fst (onLeave ?s0 ?d))"
    by (simp_all add: om pa l)
qed

lemma try_authmethods_skip:
  "\<forall>m\<in>set pre. skipped env auth_config m \<Longrightarrow>
   try_authmethods env s t auth_config realm1 details offered (pre @ rest) =
   try_authmethods env s t auth_config realm1 details offered rest"
  by (induction pre) (auto simp: skipped_def)

lemma hello_preauthenticated_onHello:
  assumes "transport s = Some t"
    and "restore_or_revoke s t (effective_authmethods details) realm0 (hd_authextra details) =
           (s, Inr (realm1, authextra1))"
    and "already_authenticated t (effective_authmethods details)"
  shows "onHello env serial s realm0 details =
           (case hello_preauthenticated env t realm1 authextra1 of
              Inl e \<Rightarrow> (s, Resolves (internal_error e))
            | Inr r \<Rightarrow> (s, Resolves r))"
  using assms
  by (simp add: onHello_def onHello_try_def Let_def split: sum.splits)

lemma restore_with_cookie:
  "''cookie'' \<in> set am \<Longrightarrow> \<exists>x. restore_or_revoke s t am realm0 ax0 = (s, Inr x)"
  by (simp add: restore_or_revoke_def)

lemma join_stats_transport [simp]: "transport (fst (join_stats env s d)) = transport s"
  by (simp add: join_stats_def Let_def split: option.splits)

lemma onJoin_transport:
  "transport (fst (onJoin env s d)) = transport (fst (join_cookie s d))"
proof -
  obtain s1 e1 where j: "join_cookie s d = (s1, e1)" by (cases "join_cookie s d")
  show ?thesis by (simp add: onJoin_def j Let_def split: option.splits)
qed

lemma join_cookie_store:
  assumes "transport s = Some t" "t_cbtid t = Some (Some cbtid)" "cbtid \<noteq> []"
    and "t_cookiestore t = Some cs" "sd_authmethod d \<noteq> Some ''cookie''"
  shows "transport (fst (join_cookie s d)) =
           Some (t\<lparr>t_cookiestore := Some (setAuth cs (Some cbtid) (sd_authid d)
              (sd_authrole d) (sd_authmethod d) (Some (sd_authextra d)) (realm s))\<rparr>)"
  using assms
  by (simp add: join_cookie_def hasattr_truthy_def truthy_str_def attr_value_def Let_def)

lemma hello_cookie_found:
  assumes "received_cbtid env t = Inr (Some cbtid)" "cbtid \<noteq> []"
    and "t_cookiestore t = Some (setAuth cs (Some cbtid) i ro me ex re)"
  shows "hello_cookie env t =
           Inr (Some (Accept \<lparr>a_realm = re, a_authid = i, a_authrole = ro,
              a_authmethod = me, a_authprovider = Some ''cookie'', a_authextra = ex\<rparr>))"
  using assms
  by (simp add: hello_cookie_def truthy_str_def cs_exists_def getAuth_def setAuth_def)

lemma kicked_of_append: "kicked_of (xs @ ys) = kicked_of xs @ kicked_of ys"
  by (induction xs rule: kicked_of.induct) simp_all

lemma deleted_of_append: "deleted_of (xs @ ys) = deleted_of xs @ deleted_of ys"
  by (induction xs rule: deleted_of.induct) simp_all

lemma kicked_of_maps [simp]:
  "kicked_of (map (\<lambda>msg. (sid, RouterProcess msg)) ms) = []"
  "kicked_of (map (\<lambda>p. (sid, ProtoSendClose p)) ps) = ps"
  by (induction ms, simp_all) (induction ps, simp_all)

lemma deleted_of_maps [simp]:
  "deleted_of (map (\<lambda>msg. (sid, RouterProcess msg)) ms) = []"
  "deleted_of (map (\<lambda>p. (sid, ProtoSendClose p)) ps) = []"
  by (induction ms, simp_all) (induction ps, simp_all)

lemma leave_stats_logs [simp]:
  "kicked_of (trace (fst (leave_stats s))) = kicked_of (trace s)"
  "deleted_of (trace (fst (leave_stats s))) = deleted_of (trace s)"
  "transport (fst (leave_stats s)) = transport s"
  by (simp_all add: leave_stats_def kicked_of_append deleted_of_append
        split: option.splits bool.splits)



lemma start_pending_keeps [simp]:
  "frames (fst (start_pending env s t extra m config realm1 details)) = frames s"
  "goodbye_sent (fst (start_pending env s t extra m config realm1 details)) = goodbye_sent s"
  "transport (fst (start_pending env s t extra m config realm1 details)) = transport s"
  by (simp_all add: start_pending_def Let_def split: sum.splits option.splits pa_outcome.splits)

lemma try_authmethods_keeps [simp]:
  "frames (fst (try_authmethods env s t cfg realm1 details offered ms)) = frames s"
  "goodbye_sent (fst (try_authmethods env s t cfg realm1 details offered ms)) = goodbye_sent s"
  "transport (fst (try_authmethods env s t cfg realm1 details offered ms)) = transport s"
  by (induction ms) (simp_all split: sum.splits option.splits)

lemma hello_unconfigured_keeps [simp]:
  "frames (fst (hello_unconfigured env serial s t ms realm1 details)) = frames s"
  "goodbye_sent (fst (hello_unconfigured env serial s t ms realm1 details)) = goodbye_sent s"
  "transport (fst (hello_unconfigured env serial s t ms realm1 details)) = transport s"
  by (simp_all add: hello_unconfigured_def)






lemma callbacks_without_transport:
  assumes "transport s = None"
  shows "onHello_success env s res = (s, None)"
    and "onAuthenticate_success env s res = (s, None)"
    and "onHello_error s err = (s, Some (AttributeError ''send''))"
    and "onAuthenticate_error s err = (s, Some NoCurrentExceptionError)"
  using assms
  by (simp_all add: onHello_success_def onAuthenticate_success_def onHello_error_def
        onAuthenticate_error_def swallow_error_and_abort_def send_def)

lemma ex_opened_fields:
  "transport ex_opened = Some ex_transport"
  "session_id ex_opened = None"
  "trace ex_opened = []"
  "frames ex_opened = []"
  "transport_config ex_opened = None"
  "pending_session_id ex_opened = Some 7"
  "pending_auth ex_opened = None"
  by (simp_all add: ex_opened_def onOpen_def frames_def ex_transport_def)

lemma ex_lost_fields:
  "transport ex_lost = None"
  "session_id ex_lost = None"
  "frames ex_lost = []"
  by (simp_all add: ex_lost_def ex_opened_def onClose_def onOpen_def frames_def Let_def
        truthy_id_def)

lemma ex_joined_fields:
  "transport ex_joined = Some ex_transport"
  "session_id ex_joined = Some 7"
  "service_session ex_joined = Some 1000"
  "router ex_joined = Some ex_router"
  "goodbye_sent ex_joined = False"
  "trace ex_joined = []"
  "frames ex_joined = []"
  "realm ex_joined = Some ''realm1''"
  "authextra ex_joined = Some [(''x_cb_node'', XStr ''node1'')]"
  "stats_enabled ex_joined = Some False"
  "testaments_detached ex_joined = []"
  "testaments_destroyed ex_joined = []"
  "transport_config ex_joined = None"
  "pending_session_id ex_joined = None"
  "session_details ex_joined = None"
  by (simp_all add: ex_joined_def onOpen_def frames_def ex_transport_def)





section \<open>The handshake\<close>




text \<open>
  Claim C5. When the transport is \<open>None\<close> at the time the future of \<open>onHello\<close> or of
  \<open>onAuthenticate\<close> resolves, the callback leaves the session as it is, whatever the
  reply: no frame is written and no attribute changes, so \<open>session_id\<close> stays
  \<open>None\<close>. When the future fails, the session is unchanged as well; there the
  errback does not return silently but raises: \<open>_swallow_error_and_abort\<close> the
  \<open>AttributeError\<close> of \<open>None.send\<close>, and the errback of \<open>onAuthenticate\<close> already on
  line 627.
\<close>

theorem no_message_after_transport_loss:
  assumes "transport s = None"
  shows "fst (onHello_success env s res) = s \<and> snd (onHello_success env s res) = None \<and>
         fst (onAuthenticate_success env s res) = s \<and>
         snd (onAuthenticate_success env s res) = None \<and>
         fst (onHello_error s err) = s \<and>
         snd (onHello_error s err) = Some (AttributeError ''send'') \<and>
         fst (onAuthenticate_error s err) = s \<and>
         snd (onAuthenticate_error s err) = Some NoCurrentExceptionError"
  by (simp add: callbacks_without_transport [OF assms])

theorem no_message_after_transport_loss_witness:
  "transport ex_lost = None \<and> session_id ex_lost = None \<and>
   fst (onHello_success ex_env ex_lost (Accept ex_accept)) = ex_lost \<and>
   fst (onAuthenticate_success ex_env ex_lost (Accept ex_accept)) = ex_lost \<and>
   fst (onHello_error ex_lost ''timeout'') = ex_lost \<and>
   fst (onAuthenticate_error ex_lost ''timeout'') = ex_lost"
  using ex_lost_fields(1,2)
    no_message_after_transport_loss [OF ex_lost_fields(1), of ex_env "Accept ex_accept"
      "''timeout''"]
  by simp

section \<open>GOODBYE and ABORT\<close>

text \<open>
  Claim C2. A joined session with id \<open>n\<close> that receives GOODBYE (and can answer it: it
  has a transport, or it has sent its GOODBYE already) ends with \<open>session_id = None\<close>
  and \<open>previous_session_id = n\<close>, and the one publication of
  \<open>wamp.session.on_leave\<close> it makes through the service session carries \<open>n\<close> and is
  made while \<open>session_id\<close> is \<open>None\<close>: the first component of the trace entry is the
  value of \<open>session_id\<close> at the time of the call. Without a service session nothing is
  published.
\<close>

theorem goodbye_publishes_on_leave_after_clearing_session_id:
  assumes "session_id s = Some n" "goodbye_sent s \<or> transport s \<noteq> None"
  shows "snd (onMessage env uid serial s (Goodbye reason message)) = None \<and>
         session_id (fst (onMessage env uid serial s (Goodbye reason message))) = None \<and>
         previous_session_id (fst (onMessage env uid serial s (Goodbye reason message))) =
           Some n \<and>
         on_leave_of (trace (fst (onMessage env uid serial s (Goodbye reason message)))) =
           on_leave_of (trace s) @
             (if service_session s = None then [] else [(None, PSession (Some n))])"
proof -
  have om: "onMessage env uid serial s (Goodbye reason message) =
              goodbye_joined s reason message"
    using assms(1) by (simp add: onMessage_def)
  show ?thesis
    unfolding om using goodbye_joined_on_leave [OF assms, of reason message] by simp
qed

theorem goodbye_publishes_on_leave_after_clearing_session_id_witness:
  "session_id ex_joined = Some 7 \<and> transport ex_joined = Some ex_transport \<and>
   service_session ex_joined = Some 1000 \<and>
   session_id (fst (onMessage ex_env 9 ''sn'' ex_joined
                      (Goodbye ''wamp.close.normal'' None))) = None \<and>
   previous_session_id (fst (onMessage ex_env 9 ''sn'' ex_joined
                      (Goodbye ''wamp.close.normal'' None))) = Some 7 \<and>
   on_leave_of (trace (fst (onMessage ex_env 9 ''sn'' ex_joined
                      (Goodbye ''wamp.close.normal'' None)))) = [(None, PSession (Some 7))]"
proof -
  have h: "goodbye_sent ex_joined \<or> transport ex_joined \<noteq> None"
    by (simp add: ex_joined_fields)
  show ?thesis
    using goodbye_publishes_on_leave_after_clearing_session_id [OF ex_joined_fields(2) h,
        of ex_env 9 "''sn''" "''wamp.close.normal''" None]
    by (simp add: ex_joined_fields)
qed




text \<open>
  Claim C4, as the code has it. A session that has not joined and receives ABORT
  fires \<open>onLeave\<close> with the reason and message of the ABORT (its trace is the trace
  \<open>onLeave\<close> leaves), sets \<open>session_id\<close>, \<open>previous_session_id\<close> and
  \<open>pending_session_id\<close> to \<open>None\<close>, and leaves \<open>pending_auth\<close> as it was.
\<close>

theorem abort_unjoined_keeps_pending_auth:
  assumes "session_id s = None"
  shows "snd (onMessage env uid serial s (Abort reason message)) = None \<and>
         session_id (fst (onMessage env uid serial s (Abort reason message))) = None \<and>
         previous_session_id (fst (onMessage env uid serial s (Abort reason message))) = None \<and>
         pending_session_id (fst (onMessage env uid serial s (Abort reason message))) = None \<and>
         pending_auth (fst (onMessage env uid serial s (Abort reason message))) =
           pending_auth s \<and>
         trace (fst (onMessage env uid serial s (Abort reason message))) =
           trace (fst (onLeave
             (if \<not> truthy_id (pending_session_id s) then s\<lparr>pending_session_id := Some uid\<rparr>
              else s)
             \<lparr>cd_reason = Some reason, cd_message = message\<rparr>))"
  using abort_unjoined [OF assms, of env uid serial reason message] by blast

theorem abort_unjoined_keeps_pending_auth_witness:
  "session_id ex_challenged = None \<and>
   session_id (fst (onMessage ex_env 9 ''sn'' ex_challenged
                      (Abort ''wamp.error.canceled'' None))) = None \<and>
   previous_session_id (fst (onMessage ex_env 9 ''sn'' ex_challenged
                      (Abort ''wamp.error.canceled'' None))) = None \<and>
   pending_session_id (fst (onMessage ex_env 9 ''sn'' ex_challenged
                      (Abort ''wamp.error.canceled'' None))) = None \<and>
   pending_auth (fst (onMessage ex_env 9 ''sn'' ex_challenged
                      (Abort ''wamp.error.canceled'' None))) = pending_auth ex_challenged"
proof -
  have a: "session_id ex_challenged = None"
    by (simp add: ex_challenged_def ex_opened_fields)
  show ?thesis
    using a abort_unjoined_keeps_pending_auth [OF a, of ex_env 9 "''sn''"
        "''wamp.error.canceled''" None]
    by simp
qed

text \<open>
  The pending authentication is not released: a challenged session that receives
  ABORT still holds it. Nothing in the class assigns \<open>_pending_auth\<close> after
  \<open>onOpen\<close> but \<open>onHello\<close>.
\<close>

theorem abort_leaves_pending_auth_set:
  "session_id ex_challenged = None \<and> pending_auth ex_challenged = Some ex_pa \<and>
   pending_auth (fst (onMessage ex_env 9 ''sn'' ex_challenged
                        (Abort ''wamp.error.canceled'' None))) = Some ex_pa"
proof -
  have a: "session_id ex_challenged = None"
    by (simp add: ex_challenged_def ex_opened_fields)
  have b: "pending_auth ex_challenged = Some ex_pa"
    by (simp add: ex_challenged_def)
  show ?thesis
    using a b abort_unjoined(5) [OF a, of ex_env 9 "''sn''" "''wamp.error.canceled''" None]
    by simp
qed


section \<open>onHello\<close>

text \<open>
  Claim C6, as the code has it. When the restoring step of \<open>onHello\<close> (lines 818 to
  841) leaves the transport as it is, the transport holds an identity (\<open>_authid\<close> is
  set, and \<open>_authmethod\<close> is \<open>trusted\<close> or \<open>_authprovider\<close> is offered), and the router
  factory has the realm, then \<open>onHello\<close> returns \<open>Accept\<close> with the transport's
  \<open>authid\<close>, \<open>authrole\<close>, \<open>authmethod\<close> and \<open>authprovider\<close> if the realm has the role,
  and \<open>Deny\<close> with \<open>wamp.error.no_such_role\<close> if it does not.
\<close>

theorem preauthenticated_accept_or_no_such_role:
  assumes "transport s = Some t"
    and "restore_or_revoke s t (effective_authmethods details) realm0 (hd_authextra details) =
           (s, Inr (realm1, authextra1))"
    and "already_authenticated t (effective_authmethods details)"
    and "routers env realm1 = Some r"
  shows "(has_role r (t_authrole t) \<longrightarrow>
            onHello env serial s realm0 details =
              (s, Resolves (Accept \<lparr>a_realm = realm1, a_authid = t_authid t,
                  a_authrole = t_authrole t, a_authmethod = t_authmethod t,
                  a_authprovider = t_authprovider t, a_authextra = authextra1\<rparr>))) \<and>
         (\<not> has_role r (t_authrole t) \<longrightarrow>
            (\<exists>m. onHello env serial s realm0 details =
               (s, Resolves (Deny (Some NO_SUCH_ROLE) m))))"
  using assms(4)
  by (simp add: hello_preauthenticated_onHello [OF assms(1,2,3)] hello_preauthenticated_def)

theorem preauthenticated_accept_or_no_such_role_witness:
  "already_authenticated ex_trusted
     (effective_authmethods (ex_offer (Some [''ticket'']) (Some ''realm1''))) \<and>
   has_role ex_router (t_authrole ex_trusted) \<and>
   onHello ex_env ''sn'' (onOpen ex_trusted) (Some ''realm1'')
       (ex_offer (Some [''ticket'']) (Some ''realm1'')) =
     (onOpen ex_trusted,
      Resolves (Accept \<lparr>a_realm = Some ''realm1'', a_authid = Some ''alice'',
        a_authrole = Some ''user'', a_authmethod = Some ''trusted'',
        a_authprovider = Some ''tls'', a_authextra = None\<rparr>)) \<and>
   \<not> has_role ex_router (t_authrole ex_trusted_ghost) \<and>
   (\<exists>m. onHello ex_env ''sn'' (onOpen ex_trusted_ghost) (Some ''realm1'')
           (ex_offer (Some [''ticket'']) (Some ''realm1'')) =
         (onOpen ex_trusted_ghost, Resolves (Deny (Some NO_SUCH_ROLE) m)))"
proof -
  let ?d = "ex_offer (Some [''ticket'']) (Some ''realm1'')"
  have t: "transport (onOpen ex_trusted) = Some ex_trusted"
    "transport (onOpen ex_trusted_ghost) = Some ex_trusted_ghost"
    by (simp_all add: onOpen_def)
  have rr: "restore_or_revoke (onOpen ex_trusted) ex_trusted (effective_authmethods ?d)
              (Some ''realm1'') (hd_authextra ?d) = (onOpen ex_trusted, Inr (Some ''realm1'', None))"
    "restore_or_revoke (onOpen ex_trusted_ghost) ex_trusted_ghost (effective_authmethods ?d)
              (Some ''realm1'') (hd_authextra ?d) =
       (onOpen ex_trusted_ghost, Inr (Some ''realm1'', None))"
    by (simp_all add: restore_or_revoke_def ex_trusted_ghost_def ex_trusted_def
          hasattr_truthy_def ex_offer_def)
  have aa: "already_authenticated ex_trusted (effective_authmethods ?d)"
    "already_authenticated ex_trusted_ghost (effective_authmethods ?d)"
    by (simp_all add: already_authenticated_def ex_trusted_ghost_def ex_trusted_def)
  have r: "routers ex_env (Some ''realm1'') = Some ex_router"
    by (simp add: ex_env_def)
  have roles: "has_role ex_router (t_authrole ex_trusted)"
    "\<not> has_role ex_router (t_authrole ex_trusted_ghost)"
    by (simp_all add: ex_router_def ex_trusted_ghost_def ex_trusted_def)
  show ?thesis
    using aa(1) roles
      preauthenticated_accept_or_no_such_role [OF t(1) rr(1) aa(1) r, of "''sn''"]
      preauthenticated_accept_or_no_such_role [OF t(2) rr(2) aa(2) r, of "''sn''"]
    by (simp add: ex_trusted_def ex_trusted_ghost_def)
qed

text \<open>
  The claim as the spec words it does not hold of every transport that carries an
  identity: when the identity came from a cookie and the client does not offer
  \<open>cookie\<close>, \<open>onHello\<close> revokes it first (lines 824 to 826) and goes on to the
  configured methods; here none is configured and \<open>anonymous\<close> is not offered.
\<close>

theorem revoked_identity_is_denied_no_auth_method:
  "t_authid ex_trusted_cookie = Some ''alice'' \<and>
   t_authmethod ex_trusted_cookie = Some ''trusted'' \<and>
   has_role ex_router (t_authrole ex_trusted_cookie) \<and>
   snd (onHello ex_env ''sn'' (onOpen ex_trusted_cookie) (Some ''realm1'')
          (ex_offer (Some [''ticket'']) (Some ''realm1''))) =
     Resolves (Deny (Some NO_AUTH_METHOD)
       (Some (''cannot authenticate [1] using any of the offered authmethods ''
              @ repr_list [''ticket''])))"
  by (simp add: onHello_def onHello_try_def Let_def restore_or_revoke_def
        effective_authmethods_def already_authenticated_def provider_offered_def
        hello_unconfigured_def hasattr_truthy_def truthy_str_def onOpen_def
        ex_trusted_cookie_def ex_trusted_def ex_offer_def ex_router_def)

text \<open>
  Claim C8, as the code has it. When no authentication is configured on the
  transport, the transport carries no identity and no realm restored from a cookie,
  and the client offers \<open>anonymous\<close>, a HELLO that names no realm, or a realm the
  router factory does not have, is denied with \<open>wamp.error.no_such_realm\<close>.
\<close>

theorem unknown_realm_unconfigured:
  assumes "transport s = Some t"
    and "\<not> hasattr_truthy (t_authrealm t)"
    and "\<not> already_authenticated t (effective_authmethods details)"
    and "transport_config s = None \<or> transport_config s = Some []"
    and "''anonymous'' \<in> set (effective_authmethods details)"
    and "\<not> truthy_str realm0 \<or> routers env realm0 = None"
  shows "\<exists>m. onHello env serial s realm0 details =
              (s, Resolves (Deny (Some NO_SUCH_REALM) m))"
  using assms
  by (auto simp: onHello_def onHello_try_def Let_def restore_or_revoke_def
        hello_unconfigured_def)

theorem unknown_realm_unconfigured_witness:
  "transport ex_opened = Some ex_transport \<and>
   routers ex_env (Some ''nope'') = None \<and>
   ''anonymous'' \<in> set (effective_authmethods (ex_offer None (Some ''nope''))) \<and>
   (\<exists>m. onHello ex_env ''sn'' ex_opened (Some ''nope'') (ex_offer None (Some ''nope'')) =
         (ex_opened, Resolves (Deny (Some NO_SUCH_REALM) m)))"
proof -
  let ?d = "ex_offer None (Some ''nope'')"
  have a: "\<not> hasattr_truthy (t_authrealm ex_transport)"
    by (simp add: ex_transport_def hasattr_truthy_def)
  have b: "\<not> already_authenticated ex_transport (effective_authmethods ?d)"
    by (simp add: already_authenticated_def ex_transport_def)
  have c: "transport_config ex_opened = None \<or> transport_config ex_opened = Some []"
    by (simp add: ex_opened_fields)
  have d: "''anonymous'' \<in> set (effective_authmethods ?d)"
    by (simp add: effective_authmethods_def ex_offer_def)
  have e: "routers ex_env (Some ''nope'') = None"
    by (simp add: ex_env_def)
  have f: "\<not> truthy_str (Some ''nope'') \<or> routers ex_env (Some ''nope'') = None"
    using e by simp
  show ?thesis
    using d e ex_opened_fields(1)
      unknown_realm_unconfigured [OF ex_opened_fields(1) a b c d f, of "''sn''"]
    by simp
qed

text \<open>
  The claim as the spec words it does not hold of every HELLO: with no
  authentication configured, the offered methods are looked at before the realm, and
  a HELLO for an unknown realm that does not offer \<open>anonymous\<close> is denied with
  \<open>wamp.error.no_auth_method\<close>.
\<close>

theorem unknown_realm_denied_no_auth_method:
  "routers ex_env (Some ''nope'') = None \<and>
   snd (onHello ex_env ''sn'' ex_opened (Some ''nope'')
          (ex_offer (Some [''ticket'']) (Some ''nope''))) =
     Resolves (Deny (Some NO_AUTH_METHOD)
       (Some (''cannot authenticate [1] using any of the offered authmethods ''
              @ repr_list [''ticket''])))"
  by (simp add: onHello_def onHello_try_def Let_def restore_or_revoke_def
        effective_authmethods_def already_authenticated_def provider_offered_def
        hello_unconfigured_def hasattr_truthy_def truthy_str_def onOpen_def
        ex_opened_def ex_transport_def ex_offer_def ex_env_def)

section \<open>Cookies\<close>

lemma ex_join_details_fields:
  "sd_authid ex_join_details = Some ''alice''"
  "sd_authrole ex_join_details = Some ''user''"
  "sd_authmethod ex_join_details = Some ''ticket''"
  "sd_authextra ex_join_details = [(''x_cb_node'', XStr ''node1'')]"
  by (simp_all add: ex_join_details_def details_of_def ex_joined_def onOpen_def)

lemma ex_transport_fields:
  "t_cbtid ex_transport = Some (Some ''c1'')"
  "t_cookiestore ex_transport = Some ex_store"
  "t_ident ex_transport = 1"
  by (simp_all add: ex_transport_def)

lemma ex_joined_store:
  "transport (fst (onJoin ex_env ex_joined ex_join_details)) =
     Some (ex_transport\<lparr>t_cookiestore :=
       Some (setAuth ex_store (Some ''c1'') (Some ''alice'') (Some ''user'') (Some ''ticket'')
               (Some [(''x_cb_node'', XStr ''node1'')]) (Some ''realm1''))\<rparr>)"
  "ex_store_joined =
     Some (setAuth ex_store (Some ''c1'') (Some ''alice'') (Some ''user'') (Some ''ticket'')
             (Some [(''x_cb_node'', XStr ''node1'')]) (Some ''realm1''))"
proof -
  have m: "sd_authmethod ex_join_details \<noteq> Some ''cookie''"
    by (simp add: ex_join_details_fields)
  have c: "''c1'' \<noteq> []" by simp
  show j: "transport (fst (onJoin ex_env ex_joined ex_join_details)) =
     Some (ex_transport\<lparr>t_cookiestore :=
       Some (setAuth ex_store (Some ''c1'') (Some ''alice'') (Some ''user'') (Some ''ticket'')
               (Some [(''x_cb_node'', XStr ''node1'')]) (Some ''realm1''))\<rparr>)"
    using join_cookie_store [OF ex_joined_fields(1) ex_transport_fields(1) c
        ex_transport_fields(2) m]
    by (simp add: onJoin_transport ex_join_details_fields ex_joined_fields)
  show "ex_store_joined =
     Some (setAuth ex_store (Some ''c1'') (Some ''alice'') (Some ''user'') (Some ''ticket'')
             (Some [(''x_cb_node'', XStr ''node1'')]) (Some ''realm1''))"
    by (simp add: ex_store_joined_def j)
qed

text \<open>
  Claim C7, as the code has it. A session joins on a transport with the cookie id
  \<open>cbtid\<close> by a method other than \<open>cookie\<close>, so that \<open>onJoin\<close> records the identity in
  the cookie store. A later HELLO on a transport of the same cookie store that presents
  \<open>cbtid\<close> in its \<open>set-cookie\<close> header, carries no identity of its own, has \<open>cookie\<close>
  configured and available, and offers \<open>cookie\<close> after methods the loop passes over,
  is answered with \<open>Accept\<close> of the identity that joined: its realm, \<open>authid\<close>,
  \<open>authrole\<close>, \<open>authmethod\<close> and \<open>authextra\<close>, with \<open>authprovider = cookie\<close>.
\<close>

theorem cookie_round_trip:
  assumes "transport s1 = Some t1" "t_cbtid t1 = Some (Some cbtid)" "cbtid \<noteq> []"
    and "t_cookiestore t1 = Some cs" "sd_authmethod d \<noteq> Some ''cookie''"
    and "transport (fst (onJoin env s1 d)) = Some t1'"
    and "transport s2 = Some t2" "t_cookiestore t2 = t_cookiestore t1'"
    and "received_cbtid env t2 = Inr (Some cbtid)"
    and "hd_authmethods details = Some (pre @ ''cookie'' # post)"
    and "\<not> already_authenticated t2 (pre @ ''cookie'' # post)"
    and "transport_config s2 = Some auth_config" "auth_config \<noteq> []"
    and "\<forall>m\<in>set pre. skipped env auth_config m"
    and "''cookie'' \<in> set (AUTHMETHODS env)"
    and "map_of auth_config ''cookie'' \<noteq> None"
    and "map_of (AUTHMETHOD_MAP env) ''cookie'' \<noteq> None"
    and "map_of (extra_auth_methods env) ''cookie'' = None"
  shows "snd (onHello env serial s2 realm0 details) =
           Resolves (Accept \<lparr>a_realm = realm s1, a_authid = sd_authid d,
              a_authrole = sd_authrole d, a_authmethod = sd_authmethod d,
              a_authprovider = Some ''cookie'', a_authextra = Some (sd_authextra d)\<rparr>)"
proof -
  let ?am = "pre @ ''cookie'' # post"
  let ?cs' = "setAuth cs (Some cbtid) (sd_authid d) (sd_authrole d) (sd_authmethod d)
                (Some (sd_authextra d)) (realm s1)"
  have am: "effective_authmethods details = ?am"
    using assms(10) by (simp add: effective_authmethods_def)
  have "transport (fst (onJoin env s1 d)) = Some (t1\<lparr>t_cookiestore := Some ?cs'\<rparr>)"
    using join_cookie_store [OF assms(1-5)] by (simp add: onJoin_transport)
  then have store: "t_cookiestore t2 = Some ?cs'"
    using assms(6,8) by simp
  obtain x where rr: "restore_or_revoke s2 t2 ?am realm0 (hd_authextra details) = (s2, Inr x)"
    using restore_with_cookie [of ?am s2 t2 realm0 "hd_authextra details"] by auto
  obtain realm1 ax1 where x: "x = (realm1, ax1)" by (cases x)
  have nokey: "''cookie'' \<notin> fst ` set (extra_auth_methods env)"
    using assms(18) by (simp add: map_of_eq_None_iff)
  have np: "''cookie'' \<notin> set (pending_auth_methods @ map fst (extra_auth_methods env))"
    using nokey by (simp add: pending_auth_methods_def)
  have loop: "try_authmethods env s2 t2 auth_config realm1 details ?am ?am =
                (s2, Inr (Resolves (Accept \<lparr>a_realm = realm s1, a_authid = sd_authid d,
                   a_authrole = sd_authrole d, a_authmethod = sd_authmethod d,
                   a_authprovider = Some ''cookie'',
                   a_authextra = Some (sd_authextra d)\<rparr>)))"
  proof -
    obtain c k where c: "map_of auth_config ''cookie'' = Some c"
      and k: "map_of (AUTHMETHOD_MAP env) ''cookie'' = Some k"
      using assms(16,17) by auto
    show ?thesis
      using assms(15) c k np hello_cookie_found [OF assms(9) assms(3) store]
      by (simp add: try_authmethods_skip [OF assms(14)] del: set_append)
  qed
  show ?thesis
    using assms(7,11,12,13) rr x loop
    by (simp add: onHello_def onHello_try_def am Let_def)
qed

theorem cookie_round_trip_witness:
  "sd_authmethod ex_join_details = Some ''ticket'' \<and>
   t_cookiestore ex_fresh_transport = ex_store_joined \<and>
   received_cbtid ex_env ex_fresh_transport = Inr (Some ''c1'') \<and>
   skipped ex_env [(''cookie'', []), (''ticket'', [(''type'', ''static'')])] ''wampcra'' \<and>
   snd (onHello ex_env ''sn'' ex_fresh (Some ''realm2'')
          (ex_offer (Some [''wampcra'', ''cookie'']) (Some ''realm2''))) =
     Resolves (Accept \<lparr>a_realm = Some ''realm1'', a_authid = Some ''alice'',
       a_authrole = Some ''user'', a_authmethod = Some ''ticket'',
       a_authprovider = Some ''cookie'',
       a_authextra = Some [(''x_cb_node'', XStr ''node1'')]\<rparr>)"
proof -
  let ?cfg = "[(''cookie'', []), (''ticket'', [(''type'', ''static'')])]"
  let ?d = "ex_offer (Some [''wampcra'', ''cookie'']) (Some ''realm2'')"
  have c: "''c1'' \<noteq> []" by simp
  have m: "sd_authmethod ex_join_details \<noteq> Some ''cookie''"
    by (simp add: ex_join_details_fields)
  have t2: "transport ex_fresh = Some ex_fresh_transport"
    by (simp add: ex_fresh_def onOpen_def)
  have st: "t_cookiestore ex_fresh_transport =
              t_cookiestore (ex_transport\<lparr>t_cookiestore :=
                Some (setAuth ex_store (Some ''c1'') (Some ''alice'') (Some ''user'')
                  (Some ''ticket'') (Some [(''x_cb_node'', XStr ''node1'')])
                  (Some ''realm1''))\<rparr>)"
    by (simp add: ex_fresh_transport_def ex_joined_store(2))
  have rc: "received_cbtid ex_env ex_fresh_transport = Inr (Some ''c1'')"
    by (simp add: received_cbtid_def ex_fresh_transport_def ex_transport_def ex_details_def
          ex_env_def)
  have am: "hd_authmethods ?d = Some ([''wampcra''] @ ''cookie'' # [])"
    by (simp add: ex_offer_def)
  have na: "\<not> already_authenticated ex_fresh_transport ([''wampcra''] @ ''cookie'' # [])"
    by (simp add: already_authenticated_def ex_fresh_transport_def ex_transport_def)
  have tc: "transport_config ex_fresh = Some ?cfg"
    by (simp add: ex_fresh_def onOpen_def ex_fresh_transport_def)
  have ne: "?cfg \<noteq> []" by simp
  have sk: "skipped ex_env ?cfg ''wampcra''"
    by (simp add: skipped_def ex_env_def extra_auth_methods_def)
  have pre: "\<forall>m\<in>set [''wampcra'']. skipped ex_env ?cfg m"
    using sk by simp
  have k1: "''cookie'' \<in> set (AUTHMETHODS ex_env)" by (simp add: ex_env_def)
  have k2: "map_of ?cfg ''cookie'' \<noteq> None" by simp
  have k3: "map_of (AUTHMETHOD_MAP ex_env) ''cookie'' \<noteq> None" by (simp add: ex_env_def)
  have k4: "map_of (extra_auth_methods ex_env) ''cookie'' = None"
    by (simp add: ex_env_def extra_auth_methods_def)
  show ?thesis
    using sk rc
      cookie_round_trip [OF ex_joined_fields(1) ex_transport_fields(1) c
        ex_transport_fields(2) m ex_joined_store(1) t2 st rc am na tc ne pre k1 k2 k3 k4,
        of "''sn''" "Some ''realm2''"]
    by (simp add: ex_join_details_fields ex_joined_fields ex_fresh_transport_def)
qed

text \<open>
  The claim as the spec words it does not hold of every fresh HELLO that presents the
  cookie and offers \<open>cookie\<close>: the cookie branch is inside the loop over the configured
  methods, and a transport with no authentication configured never reaches it.
\<close>

theorem cookie_hello_unconfigured_is_denied:
  "map_option (\<lambda>cs. cs_exists cs (Some ''c1'')) ex_store_joined = Some True \<and>
   received_cbtid ex_env ex_fresh_transport = Inr (Some ''c1'') \<and>
   snd (onHello ex_env ''sn'' ex_fresh_unconfigured (Some ''realm1'')
          (ex_offer (Some [''cookie'']) (Some ''realm1''))) =
     Resolves (Deny (Some NO_AUTH_METHOD)
       (Some (''cannot authenticate [1] using any of the offered authmethods ''
              @ repr_list [''cookie''])))"
proof -
  have a: "map_option (\<lambda>cs. cs_exists cs (Some ''c1'')) ex_store_joined = Some True"
    by (simp add: ex_joined_store(2) cs_exists_def setAuth_def)
  have b: "received_cbtid ex_env ex_fresh_transport = Inr (Some ''c1'')"
    by (simp add: received_cbtid_def ex_fresh_transport_def ex_transport_def ex_details_def
          ex_env_def)
  have c: "snd (onHello ex_env ''sn'' ex_fresh_unconfigured (Some ''realm1'')
          (ex_offer (Some [''cookie'']) (Some ''realm1''))) =
     Resolves (Deny (Some NO_AUTH_METHOD)
       (Some (''cannot authenticate [1] using any of the offered authmethods ''
              @ repr_list [''cookie''])))"
    by (simp add: onHello_def onHello_try_def Let_def restore_or_revoke_def
          effective_authmethods_def already_authenticated_def provider_offered_def
          hello_unconfigured_def hasattr_truthy_def truthy_str_def onOpen_def
          ex_fresh_unconfigured_def ex_fresh_transport_def ex_transport_def ex_offer_def)
  show ?thesis using a b c by simp
qed




section \<open>onClose\<close>

text \<open>
  Claim C10. \<open>onClose\<close>, on a session whose transport is there if it has a service
  session, and whose session id is not the falsy \<open>0\<close>, returns and leaves
  \<open>session_id\<close>, \<open>previous_session_id\<close>, \<open>pending_session_id\<close>, \<open>authid\<close>,
  \<open>authrole\<close>, \<open>authmethod\<close> and \<open>authprovider\<close> at \<open>None\<close>, and \<open>authextra\<close> as it
  was.
\<close>

theorem onClose_clears_ids_keeps_authextra:
  assumes "service_session s = None \<or> transport s \<noteq> None" "session_id s \<noteq> Some 0"
  shows "snd (onClose s wasClean) = None \<and>
         session_id (fst (onClose s wasClean)) = None \<and>
         previous_session_id (fst (onClose s wasClean)) = None \<and>
         pending_session_id (fst (onClose s wasClean)) = None \<and>
         authid (fst (onClose s wasClean)) = None \<and>
         authrole (fst (onClose s wasClean)) = None \<and>
         authmethod (fst (onClose s wasClean)) = None \<and>
         authprovider (fst (onClose s wasClean)) = None \<and>
         authextra (fst (onClose s wasClean)) = authextra s"
  using onClose_clears [OF assms, of wasClean] by blast

theorem onClose_clears_ids_keeps_authextra_witness:
  "session_id ex_joined = Some 7 \<and>
   authextra ex_joined = Some [(''x_cb_node'', XStr ''node1'')] \<and>
   session_id (fst (onClose ex_joined True)) = None \<and>
   authid (fst (onClose ex_joined True)) = None \<and>
   authprovider (fst (onClose ex_joined True)) = None \<and>
   authextra (fst (onClose ex_joined True)) = Some [(''x_cb_node'', XStr ''node1'')]"
proof -
  have a: "service_session ex_joined = None \<or> transport ex_joined \<noteq> None"
    by (simp add: ex_joined_fields)
  have b: "session_id ex_joined \<noteq> Some 0"
    by (simp add: ex_joined_fields)
  show ?thesis
    using onClose_clears_ids_keeps_authextra [OF a b, of True]
    by (simp add: ex_joined_fields)
qed

end
